theory Spec2Isabelle
  imports Main
begin

section \<open>JavaScript values\<close>

text \<open>
  A JavaScript string is a sequence of UTF-16 code units, so that the Cyrillic texts of the
  bot have one element per letter and \<open>length\<close> is the \<open>.length\<close> of the source.
  Literals of the source that are plain ASCII are written through \<open>ascii\<close>.

  Conventions of the whole development: every \<open>async\<close> function is run to completion
  (one event is handled at a time), a \<open>throw\<close> is the \<open>Inl\<close> of a sum, and the store
  is an explicit value that each operation takes and returns. Failures of the
  infrastructure itself (the database connection, the Telegram API, the socket library)
  are outside the embedding: a persistence call either finds its documents or reports that
  there are none.
\<close>

type_synonym jsstring = "nat list"

definition ascii :: "string \<Rightarrow> jsstring" where
  "ascii s = map of_char s"

text \<open>White space as \<open>String.prototype.trim\<close> and the regular expression class \<open>\s\<close>
  read it: the WhiteSpace and LineTerminator code points of ECMAScript.\<close>

definition isWhiteSpace :: "nat \<Rightarrow> bool" where
  "isWhiteSpace c \<longleftrightarrow>
     c \<in> set [9, 10, 11, 12, 13, 32, 160, 5760, 8232, 8233, 8239, 8287, 12288, 65279]
     \<or> (8192 \<le> c \<and> c \<le> 8202)"

definition trim :: "jsstring \<Rightarrow> jsstring" where
  "trim s = rev (dropWhile isWhiteSpace (rev (dropWhile isWhiteSpace s)))"

text \<open>\<open>String.prototype.toLowerCase\<close> is the case mapping of the JavaScript engine: it
  folds every cased letter of the Unicode version the engine was built with, and not always
  one code unit to one code unit. The development does not fix it: whatever calls
  \<open>toLowerCase\<close> in the source takes the mapping as a parameter here (\<open>lower\<close> in the
  matching service, the field \<open>toLowerCase\<close> of the record \<open>services\<close> in the bot), and
  every theorem holds for each mapping.\<close>

definition startsWith :: "jsstring \<Rightarrow> jsstring \<Rightarrow> bool" where
  "startsWith s p \<longleftrightarrow> take (length p) s = p"

text \<open>\<open>s.includes(t)\<close>: \<open>t\<close> occurs in \<open>s\<close> as a contiguous run.\<close>

fun str_includes :: "jsstring \<Rightarrow> jsstring \<Rightarrow> bool" where
  "str_includes [] t = (t = [])"
| "str_includes (c # cs) t = (startsWith (c # cs) t \<or> str_includes cs t)"

text \<open>\<open>parts.join(sep)\<close>.\<close>

fun join :: "jsstring \<Rightarrow> jsstring list \<Rightarrow> jsstring" where
  "join sep [] = []"
| "join sep [x] = x"
| "join sep (x # y # ys) = x @ sep @ join sep (y # ys)"

text \<open>\<open>String(n)\<close> for an integer below \<open>10\<^sup>2\<^sup>1\<close> in absolute value, where the engine
  writes all the digits (the ids of Telegram are far below).\<close>

function natToString :: "nat \<Rightarrow> jsstring" where
  "natToString n = (if n < 10 then [48 + n] else natToString (n div 10) @ [48 + n mod 10])"
  by pat_completeness auto
termination
  by (relation "measure id") auto

declare natToString.simps [simp del]

definition numberToString :: "int \<Rightarrow> jsstring" where
  "numberToString i = (if i < 0 then 45 # natToString (nat (- i)) else natToString (nat i))"

text \<open>An \<open>Error\<close> object is its class and its message. \<open>ReferenceError\<close> is what the
  engine raises when an identifier that no scope declares is evaluated.\<close>

datatype js_error = Error (message: jsstring) | ReferenceError (message: jsstring)

definition ACCESS_DENIED :: js_error where
  "ACCESS_DENIED = Error (ascii ''ACCESS_DENIED'')"

definition CONFERENCE_NOT_FOUND :: js_error where
  "CONFERENCE_NOT_FOUND = Error (ascii ''CONFERENCE_NOT_FOUND'')"

definition MISSING_KEYS :: js_error where
  "MISSING_KEYS = Error (ascii ''MISSING_KEYS'')"


section \<open>Data model\<close>

text \<open>A Mongo ObjectId is known to the services through \<open>toString()\<close> and equality
  only; it is modelled by its hexadecimal text.\<close>

datatype object_id = ObjectId jsstring

fun toString :: "object_id \<Rightarrow> jsstring" where
  "toString (ObjectId h) = h"

text \<open>models/user.js\<close>

datatype global_role = main_admin | conference_admin | plain_user

record user =
  user_telegramId :: jsstring
  user_username :: "jsstring option"
  user_globalRole :: global_role

text \<open>models/conference.js. An absent optional field (\<open>undefined\<close>) is \<open>None\<close>.\<close>

record conference =
  conf_id :: object_id
  conf_title :: jsstring
  conf_description :: "jsstring option"
  conf_conferenceCode :: jsstring
  conf_isActive :: bool
  conf_isEnded :: bool
  conf_admins :: "object_id list"
  conf_currentSlideUrl :: "jsstring option"
  conf_currentSlideTitle :: "jsstring option"

text \<open>Modelled from the spec: models/userProfile.js is not among the sources. The
  fields are those of the spec's Profile (one per account and conference, the three lists,
  the role tags, the onboarding flag) under the names the services read and write.\<close>

record profile =
  prof_id :: object_id
  prof_telegramId :: jsstring
  prof_conference :: object_id
  prof_isActive :: bool
  prof_onboardingCompleted :: bool
  prof_firstName :: "jsstring option"
  prof_lastName :: "jsstring option"
  prof_interests :: "jsstring list"
  prof_offerings :: "jsstring list"
  prof_lookingFor :: "jsstring list"
  prof_roles :: "jsstring list"

text \<open>models/question.js\<close>

datatype question_status = pending | approved | rejected

record question =
  q_id :: object_id
  q_conference :: object_id
  q_author :: "object_id option"
  q_text :: jsstring
  q_status :: question_status
  q_isAnswered :: bool
  q_answer :: "jsstring option"
  q_answeredBy :: "object_id option"
  q_targetSpeaker :: "object_id option"
  q_upvoters :: "object_id list"

text \<open>Modelled from the spec: models/poll.js is not among the sources. A poll belongs to
  one conference and has a question text, an ordered list of options (stable numeric id,
  text, the voter identities) and an active flag. A voter identity is the account's
  external id, the number Telegram sends as \<open>ctx.from.id\<close>.\<close>

record poll_option =
  opt_id :: int
  opt_text :: jsstring
  opt_voters :: "int list"

record poll =
  poll_id :: object_id
  poll_conference :: object_id
  poll_question :: jsstring
  poll_options :: "poll_option list"
  poll_isActive :: bool

text \<open>What \<open>emitToConference\<close> hands to Socket.IO: the slide object of lib/realtime's
  only callers.\<close>

datatype payload = SlidePayload (url: "jsstring option") (title: "jsstring option")

text \<open>The Socket.IO server is the list of the messages it was given to deliver, oldest
  first: room, event name, payload.\<close>

type_synonym io = "(jsstring \<times> jsstring \<times> payload) list"

text \<open>The persisted collections, in insertion order, and the module variable
  \<open>ioInstance\<close> of lib/realtime.js (\<open>null\<close> until \<open>setIO\<close> is called).\<close>

record world =
  users :: "user list"
  conferences :: "conference list"
  profiles :: "profile list"
  questions :: "question list"
  polls :: "poll list"
  ioInstance :: "io option"


section \<open>lib/validation.js\<close>

text \<open>The Joi library is not part of the repository: a schema is taken as the function
  from the data to Joi's result, the messages of the error details (none when the data is
  valid) and the converted value. \<open>validate\<close> is the repository's helper around it.\<close>

type_synonym ('i, 'o) schema = "'i \<Rightarrow> jsstring list \<times> 'o"

definition validate :: "'i \<Rightarrow> ('i, 'o) schema \<Rightarrow> js_error + 'o" where
  "validate data sch =
     (case sch data of
        (details, v) \<Rightarrow>
          if details \<noteq> []
          then Inl (Error (ascii ''VALIDATION_ERROR: '' @ join (ascii ''; '') details))
          else Inr v)"

text \<open>What \<open>setSlide\<close> passes to \<open>slideSchema\<close>, and the value of a valid slide: all
  three keys are strings there (\<open>url\<close> and \<open>conferenceCode\<close> are required, \<open>title\<close> is
  always passed).\<close>

record slide_input =
  si_url :: "jsstring option"
  si_title :: jsstring
  si_conferenceCode :: "jsstring option"

record slide_value =
  sv_url :: jsstring
  sv_title :: jsstring
  sv_conferenceCode :: jsstring


section \<open>lib/realtime.js\<close>

definition setIO :: "io \<Rightarrow> world \<Rightarrow> world" where
  "setIO io w = w\<lparr>ioInstance := Some io\<rparr>"

definition emitToConference :: "object_id \<Rightarrow> jsstring \<Rightarrow> payload \<Rightarrow> world \<Rightarrow> world" where
  "emitToConference conferenceId event pl w =
     (case ioInstance w of
        None \<Rightarrow> w
      | Some io \<Rightarrow>
          w\<lparr>ioInstance := Some (io @ [(ascii ''conference-'' @ toString conferenceId, event, pl)])\<rparr>)"


section \<open>services/slide.service.js\<close>

text \<open>\<open>Conference.findOne({ conferenceCode })\<close> and \<open>conference.save()\<close>, which
  writes the document back under its \<open>_id\<close>.\<close>

definition findConferenceByCode :: "jsstring \<Rightarrow> world \<Rightarrow> conference option" where
  "findConferenceByCode code w = find (\<lambda>c. conf_conferenceCode c = code) (conferences w)"

definition saveConference :: "conference \<Rightarrow> world \<Rightarrow> world" where
  "saveConference c w =
     w\<lparr>conferences := map (\<lambda>d. if conf_id d = conf_id c then c else d) (conferences w)\<rparr>"

text \<open>\<open>userIsMainAdmin\<close> lives in services/conference.service.js, which is not among
  the sources: it is a parameter.\<close>

definition assertConferenceAdmin ::
  "(user \<Rightarrow> bool) \<Rightarrow> user \<Rightarrow> conference \<Rightarrow> world \<Rightarrow> js_error + unit" where
  "assertConferenceAdmin userIsMainAdmin usr conference w =
     (if userIsMainAdmin usr then Inr ()
      else
        let profs = filter (\<lambda>p. prof_telegramId p = user_telegramId usr
                                \<and> prof_conference p = conf_id conference) (profiles w);
            profileIdsStr = map (\<lambda>p. toString (prof_id p)) profs;
            isConferenceAdmin =
              (length profileIdsStr > 0
               \<and> list_ex (\<lambda>i. toString i \<in> set profileIdsStr) (conf_admins conference))
        in if \<not> isConferenceAdmin then Inl ACCESS_DENIED else Inr ())"

definition slide_updated :: jsstring where
  "slide_updated = ascii ''slide-updated''"

definition setSlide ::
  "(user \<Rightarrow> bool) \<Rightarrow> (slide_input, slide_value) schema \<Rightarrow> user \<Rightarrow> jsstring option
     \<Rightarrow> jsstring option \<Rightarrow> jsstring option \<Rightarrow> world \<Rightarrow> (js_error + conference) \<times> world" where
  "setSlide userIsMainAdmin slideSchema moderatorUser conferenceCode slideUrl slideTitle w =
     (case validate \<lparr>si_url = slideUrl,
                     si_title = (case slideTitle of None \<Rightarrow> [] | Some t \<Rightarrow> t),
                     si_conferenceCode = conferenceCode\<rparr> slideSchema of
        Inl err \<Rightarrow> (Inl err, w)
      | Inr validated \<Rightarrow>
          (case findConferenceByCode (sv_conferenceCode validated) w of
             None \<Rightarrow> (Inl CONFERENCE_NOT_FOUND, w)
           | Some conference \<Rightarrow>
               (case assertConferenceAdmin userIsMainAdmin moderatorUser conference w of
                  Inl err \<Rightarrow> (Inl err, w)
                | Inr _ \<Rightarrow>
                    let saved = conference\<lparr>conf_currentSlideUrl := Some (sv_url validated),
                                           conf_currentSlideTitle := Some (sv_title validated)\<rparr>;
                        w1 = saveConference saved w;
                        w2 = emitToConference (conf_id saved) slide_updated
                               (SlidePayload (conf_currentSlideUrl saved)
                                             (conf_currentSlideTitle saved)) w1
                    in (Inr saved, w2))))"

definition clearSlide ::
  "(user \<Rightarrow> bool) \<Rightarrow> user \<Rightarrow> jsstring \<Rightarrow> world \<Rightarrow> (js_error + conference) \<times> world" where
  "clearSlide userIsMainAdmin moderatorUser conferenceCode w =
     (case findConferenceByCode conferenceCode w of
        None \<Rightarrow> (Inl CONFERENCE_NOT_FOUND, w)
      | Some conference \<Rightarrow>
          (case assertConferenceAdmin userIsMainAdmin moderatorUser conference w of
             Inl err \<Rightarrow> (Inl err, w)
           | Inr _ \<Rightarrow>
               let saved = conference\<lparr>conf_currentSlideUrl := None,
                                      conf_currentSlideTitle := None\<rparr>;
                   w1 = saveConference saved w;
                   w2 = emitToConference (conf_id saved) slide_updated
                          (SlidePayload None None) w1
               in (Inr saved, w2)))"


section \<open>services/profile.service.js\<close>

text \<open>The object the onboarding flow collects and \<open>userProfileSchema\<close> validates; a key
  that is not set is \<open>None\<close>. The schema strips every other key.\<close>

record profile_data =
  pd_firstName :: "jsstring option"
  pd_lastName :: "jsstring option"
  pd_interests :: "jsstring list option"
  pd_offerings :: "jsstring list option"
  pd_lookingFor :: "jsstring list option"
  pd_roles :: "jsstring list option"

text \<open>\<open>UserProfile.findOne({ telegramId, conference })\<close>\<close>

definition findProfile :: "jsstring \<Rightarrow> object_id \<Rightarrow> world \<Rightarrow> profile option" where
  "findProfile telegramId conferenceId w =
     find (\<lambda>p. prof_telegramId p = telegramId \<and> prof_conference p = conferenceId) (profiles w)"

text \<open>\<open>new UserProfile({ telegramId, conference, isActive: true })\<close>: the driver gives
  the document its \<open>_id\<close>, here the argument \<open>freshId\<close>; the other fields start empty.\<close>

definition newUserProfile :: "object_id \<Rightarrow> jsstring \<Rightarrow> object_id \<Rightarrow> profile" where
  "newUserProfile freshId telegramId conferenceId =
     \<lparr>prof_id = freshId, prof_telegramId = telegramId, prof_conference = conferenceId,
      prof_isActive = True, prof_onboardingCompleted = False,
      prof_firstName = None, prof_lastName = None,
      prof_interests = [], prof_offerings = [], prof_lookingFor = [], prof_roles = []\<rparr>"

text \<open>\<open>Object.assign(profile, validated)\<close>: the keys present in \<open>validated\<close> overwrite
  the profile's, the others stay.\<close>

definition assignValidated :: "profile \<Rightarrow> profile_data \<Rightarrow> profile" where
  "assignValidated p v =
     p\<lparr>prof_firstName := (case pd_firstName v of None \<Rightarrow> prof_firstName p | Some x \<Rightarrow> Some x),
       prof_lastName := (case pd_lastName v of None \<Rightarrow> prof_lastName p | Some x \<Rightarrow> Some x),
       prof_interests := (case pd_interests v of None \<Rightarrow> prof_interests p | Some xs \<Rightarrow> xs),
       prof_offerings := (case pd_offerings v of None \<Rightarrow> prof_offerings p | Some xs \<Rightarrow> xs),
       prof_lookingFor := (case pd_lookingFor v of None \<Rightarrow> prof_lookingFor p | Some xs \<Rightarrow> xs),
       prof_roles := (case pd_roles v of None \<Rightarrow> prof_roles p | Some xs \<Rightarrow> xs)\<rparr>"

text \<open>\<open>profile.save()\<close>: a new document is inserted, a document that was read from the
  collection is written back under its \<open>_id\<close>.\<close>

definition insertProfile :: "profile \<Rightarrow> world \<Rightarrow> world" where
  "insertProfile p w = w\<lparr>profiles := profiles w @ [p]\<rparr>"

definition updateProfile :: "profile \<Rightarrow> world \<Rightarrow> world" where
  "updateProfile p w =
     w\<lparr>profiles := map (\<lambda>q. if prof_id q = prof_id p then p else q) (profiles w)\<rparr>"

text \<open>\<open>telegramId\<close> is a string or missing, \<open>conferenceId\<close> an ObjectId or missing;
  \<open>!telegramId\<close> also holds for the empty string.\<close>

definition upsertProfileForConference ::
  "(profile_data, profile_data) schema \<Rightarrow> object_id \<Rightarrow> jsstring option \<Rightarrow> object_id option
     \<Rightarrow> profile_data \<Rightarrow> world \<Rightarrow> (js_error + profile) \<times> world" where
  "upsertProfileForConference userProfileSchema freshId telegramId conferenceId data w =
     (case (telegramId, conferenceId) of
        (Some tid, Some cid) \<Rightarrow>
          if tid = [] then (Inl MISSING_KEYS, w)
          else
            (case validate data userProfileSchema of
               Inl err \<Rightarrow> (Inl err, w)
             | Inr validated \<Rightarrow>
                 (case findProfile tid cid w of
                    None \<Rightarrow>
                      let p = (assignValidated (newUserProfile freshId tid cid) validated)
                                \<lparr>prof_onboardingCompleted := True\<rparr>
                      in (Inr p, insertProfile p w)
                  | Some found \<Rightarrow>
                      let p = (assignValidated found validated)
                                \<lparr>prof_onboardingCompleted := True\<rparr>
                      in (Inr p, updateProfile p w)))
      | _ \<Rightarrow> (Inl MISSING_KEYS, w))"



section \<open>services/matching.service.js\<close>

text \<open>\<open>Query.limit(n)\<close> of MongoDB: at most \<open>n\<close> documents, and a limit of 0 is no
  limit at all.\<close>

definition mongoLimit :: "nat \<Rightarrow> 'a list \<Rightarrow> 'a list" where
  "mongoLimit n xs = (if n = 0 then xs else take n xs)"

text \<open>The filter of \<open>searchProfiles\<close>; \<open>query.roles = role\<close> matches a profile whose
  \<open>roles\<close> array contains \<open>role\<close>, and is only set for a non-empty \<open>role\<close>.\<close>

definition profileQuery :: "conference \<Rightarrow> jsstring option \<Rightarrow> profile \<Rightarrow> bool" where
  "profileQuery conference role p \<longleftrightarrow>
     prof_conference p = conf_id conference \<and> prof_isActive p \<and> prof_onboardingCompleted p
     \<and> (case role of None \<Rightarrow> True | Some r \<Rightarrow> r = [] \<or> r \<in> set (prof_roles p))"

text \<open>The test of the free-text filter for one profile; \<open>t\<close> is the lower-cased needle
  and \<open>lower\<close> the engine's \<open>toLowerCase\<close>.\<close>

definition textMatches :: "(jsstring \<Rightarrow> jsstring) \<Rightarrow> jsstring \<Rightarrow> profile \<Rightarrow> bool" where
  "textMatches lower t p \<longleftrightarrow>
     list_ex (\<lambda>val. str_includes (lower val) t)
       (prof_interests p @ prof_offerings p @ prof_lookingFor p)"

text \<open>\<open>limit\<close> is \<open>None\<close> when the caller leaves it out (the default 20 applies).\<close>

definition searchProfiles ::
  "(jsstring \<Rightarrow> jsstring) \<Rightarrow> jsstring \<Rightarrow> jsstring option \<Rightarrow> jsstring option \<Rightarrow> nat option
     \<Rightarrow> world \<Rightarrow> js_error + conference \<times> profile list" where
  "searchProfiles lower conferenceCode role searchText limit w =
     (case findConferenceByCode conferenceCode w of
        None \<Rightarrow> Inl CONFERENCE_NOT_FOUND
      | Some conference \<Rightarrow>
          let found = mongoLimit (case limit of None \<Rightarrow> 20 | Some n \<Rightarrow> n)
                        (filter (profileQuery conference role) (profiles w))
          in (case searchText of
                None \<Rightarrow> Inr (conference, found)
              | Some s \<Rightarrow>
                  if s \<noteq> [] \<and> trim s \<noteq> []
                  then Inr (conference, filter (textMatches lower (lower (trim s))) found)
                  else Inr (conference, found)))"


section \<open>Telegram updates and what the bot sends back\<close>

text \<open>\<open>ctx.from\<close>: the account Telegram names as the sender; \<open>id\<close> is a number.\<close>

record telegram_user =
  tg_id :: int
  tg_username :: "jsstring option"
  tg_first_name :: jsstring

text \<open>The texts the bot sends are Russian sentences; a message is named here by an ASCII
  key and carries the values its template interpolates. The menus come from
  telegram/menus.js, which is not among the sources: a menu that a synchronous builder
  returns is named by that builder, an inline keyboard by the callback data of its buttons.
  \<open>getMainMenu\<close> is asynchronous and is given the account: it is a parameter of the
  handlers (see \<open>services\<close>), and \<open>MainMenu\<close> is what it returns in the examples.\<close>

datatype message = Msg string "jsstring list"

datatype markup =
    NoMarkup
  | MainMenu
  | UserMenu
  | ReplyKeyboard
  | ConferenceAdminMenu
  | SpeakerMenu
  | ConferenceSelectionMenu "conference list" string
  | InlineKeyboard "jsstring list"

datatype bot_output =
    AnswerCbQuery
  | Reply message markup
  | EditMessageText message markup


section \<open>Poll voting\<close>

text \<open>Modelled from the spec: services/poll.service.js is not among the sources.
  \<open>voteInPoll\<close> follows section 4.5 of the spec: a vote on a missing or inactive poll is
  rejected (\<open>POLL_NOT_FOUND\<close>), so is a vote whose option id is not an option of the poll
  (the spec names no sentinel for it; \<open>INVALID_OPTION\<close> here), and the check that the
  voter is absent from every option's voter set and the recording of the vote are one
  step, which fails with \<open>ALREADY_VOTED\<close>. The option id is what
  \<open>parseInt(optionId, 10)\<close> gave the handler; \<open>None\<close> stands for \<open>NaN\<close>.\<close>

definition POLL_NOT_FOUND :: js_error where
  "POLL_NOT_FOUND = Error (ascii ''POLL_NOT_FOUND'')"

definition INVALID_OPTION :: js_error where
  "INVALID_OPTION = Error (ascii ''INVALID_OPTION'')"

definition ALREADY_VOTED :: js_error where
  "ALREADY_VOTED = Error (ascii ''ALREADY_VOTED'')"

definition findPollById :: "jsstring \<Rightarrow> world \<Rightarrow> poll option" where
  "findPollById pollId w = find (\<lambda>p. toString (poll_id p) = pollId) (polls w)"

definition savePoll :: "poll \<Rightarrow> world \<Rightarrow> world" where
  "savePoll p w = w\<lparr>polls := map (\<lambda>q. if poll_id q = poll_id p then p else q) (polls w)\<rparr>"

definition hasVoted :: "int \<Rightarrow> poll \<Rightarrow> bool" where
  "hasVoted voter p \<longleftrightarrow> list_ex (\<lambda>opt. voter \<in> set (opt_voters opt)) (poll_options p)"

fun recordVote :: "int \<Rightarrow> int \<Rightarrow> poll_option list \<Rightarrow> poll_option list" where
  "recordVote voter optionId [] = []"
| "recordVote voter optionId (opt # opts) =
     (if opt_id opt = optionId then opt\<lparr>opt_voters := opt_voters opt @ [voter]\<rparr> # opts
      else opt # recordVote voter optionId opts)"

definition voteInPoll ::
  "telegram_user \<Rightarrow> jsstring \<Rightarrow> int option \<Rightarrow> world \<Rightarrow> (js_error + poll) \<times> world" where
  "voteInPoll telegramUser pollId optionId w =
     (case findPollById pollId w of
        None \<Rightarrow> (Inl POLL_NOT_FOUND, w)
      | Some p \<Rightarrow>
          if \<not> poll_isActive p then (Inl POLL_NOT_FOUND, w)
          else
            (case optionId of
               None \<Rightarrow> (Inl INVALID_OPTION, w)
             | Some i \<Rightarrow>
                 if \<not> list_ex (\<lambda>opt. opt_id opt = i) (poll_options p)
                 then (Inl INVALID_OPTION, w)
                 else if hasVoted (tg_id telegramUser) p then (Inl ALREADY_VOTED, w)
                 else
                   let voted = p\<lparr>poll_options :=
                                    recordVote (tg_id telegramUser) i (poll_options p)\<rparr>
                   in (Inr voted, savePoll voted w)))"

text \<open>telegram/bot.js, the action \<open>vote:poll:<pollId>:<optionId>\<close>. Both
  \<open>ALREADY_VOTED\<close> and \<open>VOTE_FAILED\<close> are answered with "you have already voted".\<close>

definition action_vote_poll ::
  "telegram_user \<Rightarrow> jsstring \<Rightarrow> int option \<Rightarrow> world \<Rightarrow> bot_output list \<times> world" where
  "action_vote_poll sender pollId optionId w =
     (case voteInPoll sender pollId optionId w of
        (Inr p, w') \<Rightarrow>
          (case find (\<lambda>opt. Some (opt_id opt) = optionId) (poll_options p) of
             None \<Rightarrow>
               ([AnswerCbQuery, EditMessageText (Msg ''vote_counted'' [poll_question p]) UserMenu], w')
           | Some selectedOption \<Rightarrow>
               ([AnswerCbQuery,
                 EditMessageText
                   (Msg ''vote_counted''
                      [poll_question p, opt_text selectedOption,
                       natToString (length (opt_voters selectedOption))])
                   UserMenu], w'))
      | (Inl err, w') \<Rightarrow>
          ([AnswerCbQuery,
            EditMessageText
              (if message err = ascii ''ALREADY_VOTED'' \<or> message err = ascii ''VOTE_FAILED''
               then Msg ''already_voted'' [] else Msg ''vote_failed'' [])
              UserMenu], w'))"

text \<open>A run of vote attempts, by any accounts on any polls, one after the other.\<close>

fun voteAttempts :: "(telegram_user \<times> jsstring \<times> int option) list \<Rightarrow> world \<Rightarrow> world" where
  "voteAttempts [] w = w"
| "voteAttempts ((sender, pollId, optionId) # rest) w =
     voteAttempts rest (snd (action_vote_poll sender pollId optionId w))"

text \<open>The options of \<open>p\<close> that list \<open>voter\<close>.\<close>

definition votedOptions :: "int \<Rightarrow> poll \<Rightarrow> poll_option list" where
  "votedOptions voter p = filter (\<lambda>opt. voter \<in> set (opt_voters opt)) (poll_options p)"

text \<open>The account \<open>v\<close> is recorded as a voter of the active poll \<open>pollId\<close>, whose
  options have the ids \<open>ids\<close>.\<close>

definition votedOn :: "int \<Rightarrow> jsstring \<Rightarrow> int list \<Rightarrow> world \<Rightarrow> bool" where
  "votedOn v pollId ids w \<longleftrightarrow>
     (case findPollById pollId w of
        None \<Rightarrow> False
      | Some p \<Rightarrow> poll_isActive p \<and> hasVoted v p \<and> map opt_id (poll_options p) = ids)"


section \<open>telegram/bot.js: the session maps\<close>

text \<open>The values of \<open>state.flow\<close> and \<open>state.step\<close> that the handlers set and test.\<close>

datatype flow =
    flow_join_conference | flow_find_participants | flow_ask_question | flow_polls
  | flow_moderate_questions | flow_create_poll | flow_edit_poll | flow_set_slide
  | flow_create_conference | flow_assign_admin | flow_edit_conference
  | flow_manage_participants | flow_speaker_questions | flow_answer_question
  | flow_speaker_polls

datatype step =
    step_select_conference | step_enter_query | step_enter_question | step_enter_answer
  | step_enter_title | step_enter_description | step_enter_options
  | step_enter_telegram_id | step_enter_url

text \<open>A value of the map \<open>userState\<close>: the flow, and the keys a handler may have set
  (\<open>None\<close> when the object has no such key, or holds \<open>null\<close>).\<close>

record user_session =
  st_flow :: flow
  st_step :: "step option"
  st_conferenceCode :: "jsstring option"
  st_pollId :: "jsstring option"
  st_questionId :: "jsstring option"
  st_targetSpeaker :: "jsstring option"
  st_title :: "jsstring option"
  st_question :: "jsstring option"

text \<open>The object literal \<open>{ flow, step }\<close>, to which a handler adds its own keys.\<close>

definition session :: "flow \<Rightarrow> step option \<Rightarrow> user_session" where
  "session f s =
     \<lparr>st_flow = f, st_step = s, st_conferenceCode = None, st_pollId = None,
      st_questionId = None, st_targetSpeaker = None, st_title = None, st_question = None\<rparr>"

text \<open>A value of the map \<open>onboardingState\<close>: \<open>{ step, data }\<close>.\<close>

record onboarding =
  ob_step :: int
  ob_data :: profile_data

definition emptyData :: profile_data where
  "emptyData =
     \<lparr>pd_firstName = None, pd_lastName = None, pd_interests = None, pd_offerings = None,
      pd_lookingFor = None, pd_roles = None\<rparr>"

text \<open>The two module-level maps, keyed by \<open>ctx.from.id\<close>, and the store.\<close>

record bot_state =
  userState :: "int \<rightharpoonup> user_session"
  onboardingState :: "int \<rightharpoonup> onboarding"
  store :: world

definition clearUserState :: "int \<Rightarrow> bot_state \<Rightarrow> bot_state" where
  "clearUserState telegramId b =
     b\<lparr>userState := (userState b)(telegramId := None),
       onboardingState := (onboardingState b)(telegramId := None)\<rparr>"

text \<open>\<open>userState.set(id, value)\<close> and \<open>onboardingState.set(id, value)\<close>.\<close>

definition setUserState :: "int \<Rightarrow> user_session \<Rightarrow> bot_state \<Rightarrow> bot_state" where
  "setUserState telegramId s b = b\<lparr>userState := (userState b)(telegramId \<mapsto> s)\<rparr>"

definition setOnboardingState :: "int \<Rightarrow> onboarding \<Rightarrow> bot_state \<Rightarrow> bot_state" where
  "setOnboardingState telegramId ob b =
     b\<lparr>onboardingState := (onboardingState b)(telegramId \<mapsto> ob)\<rparr>"

text \<open>The services the handlers call whose modules are not among the sources
  (conference.service.js, question.service.js, poll.service.js), the two Joi schemas and
  the driver's generator of \<open>_id\<close>s: parameters of the handlers. Each service takes the
  store and returns its result, or the error it throws, with the store it leaves.

  \<open>getMainMenu\<close> of telegram/menus.js is one of them: the handlers \<open>await\<close> it with
  \<open>ctx.from\<close>, so it may look the account up, and register it, before it builds the
  menu. The last field is the engine's \<open>String.prototype.toLowerCase\<close>.\<close>

record services =
  ensureUserFromTelegram :: "telegram_user \<Rightarrow> world \<Rightarrow> user \<times> world"
  userIsMainAdmin :: "user \<Rightarrow> bool"
  listConferencesForUser :: "user \<Rightarrow> world \<Rightarrow> conference list"
  joinConference :: "telegram_user \<Rightarrow> jsstring \<Rightarrow> world \<Rightarrow> (js_error + conference) \<times> world"
  askQuestion ::
    "telegram_user \<Rightarrow> jsstring option \<Rightarrow> jsstring \<Rightarrow> jsstring option \<Rightarrow> world
       \<Rightarrow> (js_error + conference) \<times> world"
  answerQuestion ::
    "user \<Rightarrow> jsstring option \<Rightarrow> jsstring option \<Rightarrow> jsstring \<Rightarrow> world
       \<Rightarrow> (js_error + question) \<times> world"
  updateConference ::
    "jsstring option \<Rightarrow> user \<Rightarrow> jsstring option \<Rightarrow> jsstring option \<Rightarrow> world
       \<Rightarrow> (js_error + conference) \<times> world"
  createPoll ::
    "user \<Rightarrow> jsstring option \<Rightarrow> jsstring option \<Rightarrow> jsstring list \<Rightarrow> world
       \<Rightarrow> (js_error + poll) \<times> world"
  updatePoll ::
    "user \<Rightarrow> jsstring option \<Rightarrow> jsstring option \<Rightarrow> world \<Rightarrow> (js_error + poll) \<times> world"
  assignConferenceAdmin ::
    "user \<Rightarrow> jsstring option \<Rightarrow> jsstring \<Rightarrow> world \<Rightarrow> (js_error + unit) \<times> world"
  createConference :: "user \<Rightarrow> jsstring \<Rightarrow> world \<Rightarrow> (js_error + conference) \<times> world"
  userProfileSchema :: "(profile_data, profile_data) schema"
  slideSchema :: "(slide_input, slide_value) schema"
  newObjectId :: "world \<Rightarrow> object_id"
  getMainMenu :: "telegram_user \<Rightarrow> world \<Rightarrow> markup \<times> world"
  toLowerCase :: "jsstring \<Rightarrow> jsstring"

text \<open>\<open>await ctx.reply(text, await getMainMenu(ctx.from))\<close>\<close>

definition replyMainMenu ::
  "services \<Rightarrow> telegram_user \<Rightarrow> message \<Rightarrow> bot_state \<Rightarrow> bot_output list \<times> bot_state" where
  "replyMainMenu svc sender msg b =
     (case getMainMenu svc sender (store b) of
        (menu, w) \<Rightarrow> ([Reply msg menu], b\<lparr>store := w\<rparr>))"


section \<open>telegram/bot.js: handlers that start a flow\<close>

text \<open>The reply-keyboard handlers (\<open>bot.hears\<close>). The first lists the conferences
  of the account that have a code, each with its title and its code (the start date is
  not a field of the record \<open>conference\<close> and is left out of the values of the message);
  it reads no session and writes none.\<close>

definition hears_my_conferences ::
  "services \<Rightarrow> telegram_user \<Rightarrow> bot_state \<Rightarrow> bot_output list \<times> bot_state" where
  "hears_my_conferences svc sender b =
     (case ensureUserFromTelegram svc sender (store b) of
        (usr, w1) \<Rightarrow>
          let confs = listConferencesForUser svc usr w1 in
          if confs = []
          then ([Reply (Msg ''no_conferences_yet'' []) ReplyKeyboard], b\<lparr>store := w1\<rparr>)
          else ([Reply (Msg ''your_conferences''
                          (concat (map (\<lambda>c. [conf_title c, conf_conferenceCode c])
                                       (filter (\<lambda>c. conf_conferenceCode c \<noteq> []) confs))))
                   ReplyKeyboard],
                b\<lparr>store := w1\<rparr>))"

definition hears_join :: "telegram_user \<Rightarrow> bot_state \<Rightarrow> bot_output list \<times> bot_state" where
  "hears_join sender b =
     ([Reply (Msg ''enter_conference_code'' []) (InlineKeyboard [ascii ''menu:main''])],
      setUserState (tg_id sender) (session flow_join_conference None)
        (clearUserState (tg_id sender) b))"

definition hears_profile :: "telegram_user \<Rightarrow> bot_state \<Rightarrow> bot_output list \<times> bot_state" where
  "hears_profile sender b =
     ([Reply (Msg ''onboarding_step_1'' []) (InlineKeyboard [ascii ''menu:main''])],
      setOnboardingState (tg_id sender) \<lparr>ob_step = 1, ob_data = emptyData\<rparr>
        (clearUserState (tg_id sender) b))"

text \<open>The three handlers below share their shape: look the account up, list its
  conferences, and either tell the user to join one first or store the new session and
  show the conference selection. None of them calls \<open>clearUserState\<close>.\<close>

definition hears_select ::
  "services \<Rightarrow> flow \<Rightarrow> string \<Rightarrow> telegram_user \<Rightarrow> bot_state \<Rightarrow> bot_output list \<times> bot_state" where
  "hears_select svc f callback sender b =
     (case ensureUserFromTelegram svc sender (store b) of
        (usr, w1) \<Rightarrow>
          let confs = listConferencesForUser svc usr w1 in
          if confs = []
          then ([Reply (Msg ''join_a_conference_first'' []) ReplyKeyboard], b\<lparr>store := w1\<rparr>)
          else ([Reply (Msg ''choose_conference'' []) (ConferenceSelectionMenu confs callback)],
                setUserState (tg_id sender) (session f (Some step_select_conference))
                  (b\<lparr>store := w1\<rparr>)))"

definition hears_find_participants ::
  "services \<Rightarrow> telegram_user \<Rightarrow> bot_state \<Rightarrow> bot_output list \<times> bot_state" where
  "hears_find_participants svc = hears_select svc flow_find_participants ''find:conf''"

definition hears_ask_question ::
  "services \<Rightarrow> telegram_user \<Rightarrow> bot_state \<Rightarrow> bot_output list \<times> bot_state" where
  "hears_ask_question svc = hears_select svc flow_ask_question ''ask:conf''"

definition hears_polls ::
  "services \<Rightarrow> telegram_user \<Rightarrow> bot_state \<Rightarrow> bot_output list \<times> bot_state" where
  "hears_polls svc = hears_select svc flow_polls ''polls:conf''"

text \<open>The inline-button handlers (\<open>bot.action\<close>) of the same menus. Each starts with
  \<open>answerCbQuery\<close> and \<open>clearUserState\<close>.\<close>

definition action_menu_join_conference ::
  "telegram_user \<Rightarrow> bot_state \<Rightarrow> bot_output list \<times> bot_state" where
  "action_menu_join_conference sender b =
     ([AnswerCbQuery,
       EditMessageText (Msg ''enter_conference_code'' []) (InlineKeyboard [ascii ''menu:main''])],
      setUserState (tg_id sender) (session flow_join_conference None)
        (clearUserState (tg_id sender) b))"

definition action_menu_onboarding ::
  "telegram_user \<Rightarrow> bot_state \<Rightarrow> bot_output list \<times> bot_state" where
  "action_menu_onboarding sender b =
     ([AnswerCbQuery,
       EditMessageText (Msg ''onboarding_step_1'' []) (InlineKeyboard [ascii ''menu:main''])],
      setOnboardingState (tg_id sender) \<lparr>ob_step = 1, ob_data = emptyData\<rparr>
        (clearUserState (tg_id sender) b))"

definition action_menu_select ::
  "services \<Rightarrow> flow \<Rightarrow> string \<Rightarrow> message \<Rightarrow> markup \<Rightarrow> telegram_user \<Rightarrow> bot_state
     \<Rightarrow> bot_output list \<times> bot_state" where
  "action_menu_select svc f callback noConferences back sender b =
     (let b0 = clearUserState (tg_id sender) b in
      case ensureUserFromTelegram svc sender (store b0) of
        (usr, w1) \<Rightarrow>
          let confs = listConferencesForUser svc usr w1 in
          if confs = []
          then ([AnswerCbQuery, EditMessageText noConferences back], b0\<lparr>store := w1\<rparr>)
          else ([AnswerCbQuery,
                 EditMessageText (Msg ''choose_conference'' [])
                   (ConferenceSelectionMenu confs callback)],
                setUserState (tg_id sender) (session f (Some step_select_conference))
                  (b0\<lparr>store := w1\<rparr>)))"

definition action_menu_find_participants ::
  "services \<Rightarrow> telegram_user \<Rightarrow> bot_state \<Rightarrow> bot_output list \<times> bot_state" where
  "action_menu_find_participants svc =
     action_menu_select svc flow_find_participants ''find:conf''
       (Msg ''join_a_conference_first'' []) UserMenu"

definition action_menu_ask_question ::
  "services \<Rightarrow> telegram_user \<Rightarrow> bot_state \<Rightarrow> bot_output list \<times> bot_state" where
  "action_menu_ask_question svc =
     action_menu_select svc flow_ask_question ''ask:conf''
       (Msg ''join_a_conference_first'' []) UserMenu"

definition action_menu_polls ::
  "services \<Rightarrow> telegram_user \<Rightarrow> bot_state \<Rightarrow> bot_output list \<times> bot_state" where
  "action_menu_polls svc =
     action_menu_select svc flow_polls ''polls:conf'' (Msg ''join_a_conference_first'' []) UserMenu"

definition action_menu_admin_moderate_questions ::
  "services \<Rightarrow> telegram_user \<Rightarrow> bot_state \<Rightarrow> bot_output list \<times> bot_state" where
  "action_menu_admin_moderate_questions svc =
     action_menu_select svc flow_moderate_questions ''moderate:conf''
       (Msg ''no_conferences'' []) ConferenceAdminMenu"

definition action_menu_speaker_questions ::
  "services \<Rightarrow> telegram_user \<Rightarrow> bot_state \<Rightarrow> bot_output list \<times> bot_state" where
  "action_menu_speaker_questions svc =
     action_menu_select svc flow_speaker_questions ''speaker:questions:conf''
       (Msg ''no_conferences'' []) SpeakerMenu"

definition action_menu_speaker_polls ::
  "services \<Rightarrow> telegram_user \<Rightarrow> bot_state \<Rightarrow> bot_output list \<times> bot_state" where
  "action_menu_speaker_polls svc =
     action_menu_select svc flow_speaker_polls ''speaker:polls:conf''
       (Msg ''no_conferences'' []) SpeakerMenu"

text \<open>\<open>menu:admin_participants\<close> has the same body without the call of
  \<open>clearUserState\<close>.\<close>

definition action_menu_admin_participants ::
  "services \<Rightarrow> telegram_user \<Rightarrow> bot_state \<Rightarrow> bot_output list \<times> bot_state" where
  "action_menu_admin_participants svc sender b =
     (case ensureUserFromTelegram svc sender (store b) of
        (usr, w1) \<Rightarrow>
          let confs = listConferencesForUser svc usr w1 in
          if confs = []
          then ([AnswerCbQuery, EditMessageText (Msg ''no_conferences'' []) ConferenceAdminMenu],
                b\<lparr>store := w1\<rparr>)
          else ([AnswerCbQuery,
                 EditMessageText (Msg ''choose_conference'' [])
                   (ConferenceSelectionMenu confs ''participants:conf'')],
                setUserState (tg_id sender)
                  (session flow_manage_participants (Some step_select_conference))
                  (b\<lparr>store := w1\<rparr>)))"

text \<open>The handlers that ask for the first text of a flow: \<open>answerCbQuery\<close>,
  \<open>clearUserState\<close>, the new session, the prompt. Their arguments are the groups of
  the callback pattern.\<close>

definition action_start ::
  "user_session \<Rightarrow> message \<Rightarrow> jsstring \<Rightarrow> telegram_user \<Rightarrow> bot_state
     \<Rightarrow> bot_output list \<times> bot_state" where
  "action_start s prompt back sender b =
     ([AnswerCbQuery, Reply prompt (InlineKeyboard [back])],
      setUserState (tg_id sender) s (clearUserState (tg_id sender) b))"

definition action_admin_create_poll ::
  "jsstring \<Rightarrow> telegram_user \<Rightarrow> bot_state \<Rightarrow> bot_output list \<times> bot_state" where
  "action_admin_create_poll conferenceCode =
     action_start
       ((session flow_create_poll (Some step_enter_question))
          \<lparr>st_conferenceCode := Some conferenceCode\<rparr>)
       (Msg ''create_poll_enter_question'' []) (ascii ''admin:polls:'' @ conferenceCode)"

definition action_speaker_create_poll ::
  "jsstring \<Rightarrow> telegram_user \<Rightarrow> bot_state \<Rightarrow> bot_output list \<times> bot_state" where
  "action_speaker_create_poll conferenceCode =
     action_start
       ((session flow_create_poll (Some step_enter_question))
          \<lparr>st_conferenceCode := Some conferenceCode\<rparr>)
       (Msg ''create_poll_enter_question'' []) (ascii ''speaker:polls:conf:'' @ conferenceCode)"

definition action_poll_edit ::
  "jsstring \<Rightarrow> telegram_user \<Rightarrow> bot_state \<Rightarrow> bot_output list \<times> bot_state" where
  "action_poll_edit pollId =
     action_start
       ((session flow_edit_poll (Some step_enter_question))\<lparr>st_pollId := Some pollId\<rparr>)
       (Msg ''edit_poll_enter_question'' []) (ascii ''menu:conference_admin'')"

definition action_admin_set_slide ::
  "jsstring \<Rightarrow> telegram_user \<Rightarrow> bot_state \<Rightarrow> bot_output list \<times> bot_state" where
  "action_admin_set_slide conferenceCode =
     action_start
       ((session flow_set_slide (Some step_enter_url))\<lparr>st_conferenceCode := Some conferenceCode\<rparr>)
       (Msg ''set_slide_enter_url'' []) (ascii ''admin:slides:'' @ conferenceCode)"

definition action_menu_admin_create_conference ::
  "telegram_user \<Rightarrow> bot_state \<Rightarrow> bot_output list \<times> bot_state" where
  "action_menu_admin_create_conference =
     action_start (session flow_create_conference (Some step_enter_title))
       (Msg ''create_conference_enter_title'' []) (ascii ''menu:main_admin'')"

definition action_admin_assign_admin ::
  "jsstring \<Rightarrow> telegram_user \<Rightarrow> bot_state \<Rightarrow> bot_output list \<times> bot_state" where
  "action_admin_assign_admin conferenceCode =
     action_start
       ((session flow_assign_admin (Some step_enter_telegram_id))
          \<lparr>st_conferenceCode := Some conferenceCode\<rparr>)
       (Msg ''assign_admin_enter_telegram_id'' [])
       (ascii ''admin:manage_admins:conf:'' @ conferenceCode)"

definition action_admin_edit_conf ::
  "jsstring \<Rightarrow> telegram_user \<Rightarrow> bot_state \<Rightarrow> bot_output list \<times> bot_state" where
  "action_admin_edit_conf conferenceCode =
     action_start
       ((session flow_edit_conference (Some step_enter_title))
          \<lparr>st_conferenceCode := Some conferenceCode\<rparr>)
       (Msg ''edit_conference_enter_title'' []) (ascii ''admin:conf:'' @ conferenceCode)"

definition action_speaker_answer ::
  "jsstring \<Rightarrow> jsstring \<Rightarrow> telegram_user \<Rightarrow> bot_state \<Rightarrow> bot_output list \<times> bot_state" where
  "action_speaker_answer conferenceCode questionId =
     action_start
       ((session flow_answer_question (Some step_enter_answer))
          \<lparr>st_conferenceCode := Some conferenceCode, st_questionId := Some questionId\<rparr>)
       (Msg ''answer_enter_text'' []) (ascii ''speaker:questions:conf:'' @ conferenceCode)"

text \<open>\<open>ask:speaker:<code>:<target>\<close> edits the message instead of replying; the target
  \<open>all\<close> is stored as \<open>null\<close>.\<close>

definition action_ask_speaker ::
  "jsstring \<Rightarrow> jsstring \<Rightarrow> telegram_user \<Rightarrow> bot_state \<Rightarrow> bot_output list \<times> bot_state" where
  "action_ask_speaker conferenceCode targetId sender b =
     ([AnswerCbQuery,
       EditMessageText (Msg ''ask_enter_question'' [])
         (InlineKeyboard [ascii ''menu:ask_question''])],
      setUserState (tg_id sender)
        ((session flow_ask_question (Some step_enter_question))
           \<lparr>st_conferenceCode := Some conferenceCode,
            st_targetSpeaker := (if targetId = ascii ''all'' then None else Some targetId)\<rparr>)
        (clearUserState (tg_id sender) b))"

text \<open>\<open>find:conf:<code>\<close> and \<open>ask:conf:<code>\<close> continue the flow that the menu
  started: they replace the session, and call \<open>clearUserState\<close> first only when the
  current session is of another flow or missing. (\<open>ask:conf\<close> is registered a second
  time further down in the file; Telegraf runs the first registration, which never passes
  the update on.)\<close>

definition action_select_conf ::
  "flow \<Rightarrow> step \<Rightarrow> message \<Rightarrow> jsstring \<Rightarrow> jsstring \<Rightarrow> telegram_user \<Rightarrow> bot_state
     \<Rightarrow> bot_output list \<times> bot_state" where
  "action_select_conf f s prompt back conferenceCode sender b =
     (let nextState = (session f (Some s))\<lparr>st_conferenceCode := Some conferenceCode\<rparr> in
      ([AnswerCbQuery, Reply prompt (InlineKeyboard [back])],
       (case userState b (tg_id sender) of
          None \<Rightarrow> setUserState (tg_id sender) nextState (clearUserState (tg_id sender) b)
        | Some currentState \<Rightarrow>
            if st_flow currentState = f then setUserState (tg_id sender) nextState b
            else setUserState (tg_id sender) nextState (clearUserState (tg_id sender) b))))"

definition action_find_conf ::
  "jsstring \<Rightarrow> telegram_user \<Rightarrow> bot_state \<Rightarrow> bot_output list \<times> bot_state" where
  "action_find_conf =
     action_select_conf flow_find_participants step_enter_query (Msg ''find_enter_query'' [])
       (ascii ''menu:find_participants'')"

definition action_ask_conf ::
  "jsstring \<Rightarrow> telegram_user \<Rightarrow> bot_state \<Rightarrow> bot_output list \<times> bot_state" where
  "action_ask_conf =
     action_select_conf flow_ask_question step_enter_question (Msg ''ask_enter_question'' [])
       (ascii ''menu:ask_question'')"


section \<open>telegram/bot.js: the text handler\<close>

text \<open>\<open>s.split(sep)\<close> for a one-character separator: the parts between the separators,
  empty parts included.\<close>

fun splitOn :: "(nat \<Rightarrow> bool) \<Rightarrow> jsstring \<Rightarrow> jsstring list" where
  "splitOn P [] = [[]]"
| "splitOn P (c # cs) =
     (if P c then [] # splitOn P cs
      else (case splitOn P cs of [] \<Rightarrow> [[c]] | x # xs \<Rightarrow> (c # x) # xs))"

text \<open>\<open>s.split(/\s+/)\<close>: a whole run of separators separates two parts.\<close>

function splitRuns :: "(nat \<Rightarrow> bool) \<Rightarrow> jsstring \<Rightarrow> jsstring list" where
  "splitRuns P [] = [[]]"
| "splitRuns P (c # cs) =
     (if P c then [] # splitRuns P (dropWhile P cs)
      else (case splitRuns P cs of [] \<Rightarrow> [[c]] | x # xs \<Rightarrow> (c # x) # xs))"
  by pat_completeness auto
termination
  by (relation "measure (\<lambda>(P, s). length s)") (auto simp: length_dropWhile_le less_Suc_eq_le)

text \<open>\<open>/^\d+$/.test(s)\<close>\<close>

definition isDigits :: "jsstring \<Rightarrow> bool" where
  "isDigits s \<longleftrightarrow> s \<noteq> [] \<and> list_all (\<lambda>c. 48 \<le> c \<and> c \<le> 57) s"

text \<open>The word the user types to leave a flow, in Russian (the code units of its six
  Cyrillic letters) and in English.\<close>

definition otmena :: jsstring where
  "otmena = [1086, 1090, 1084, 1077, 1085, 1072]"

definition isCancel :: "services \<Rightarrow> jsstring \<Rightarrow> bool" where
  "isCancel svc t \<longleftrightarrow>
     toLowerCase svc t = otmena \<or> toLowerCase svc t = ascii ''cancel''
     \<or> toLowerCase svc t = ascii ''/cancel''"

text \<open>The comma-separated lists of the onboarding steps 2 to 4: \<open>-\<close> and the empty text
  give no list.\<close>

definition listInput :: "jsstring \<Rightarrow> jsstring list" where
  "listInput t =
     (if trim t \<noteq> ascii ''-'' \<and> trim t \<noteq> []
      then filter (\<lambda>s. s \<noteq> []) (map trim (splitOn (\<lambda>c. c = 44) t))
      else [])"

text \<open>The \<open>catch\<close> of the onboarding flow. The template of the first message inserts the
  error's message without its prefix.\<close>

definition onboardingError :: "js_error \<Rightarrow> bot_output" where
  "onboardingError err =
     Reply
       (if startsWith (message err) (ascii ''VALIDATION_ERROR:'')
        then Msg ''onboarding_validation_error'' [message err]
        else if message err = ascii ''CONFERENCE_NOT_FOUND''
        then Msg ''onboarding_conference_not_found'' []
        else if str_includes (message err) (ascii ''Invalid type'')
        then Msg ''onboarding_invalid_type'' []
        else Msg ''onboarding_error'' [])
       NoMarkup"

text \<open>Steps 2, 3 and 4 differ in the key they validate and store.\<close>

definition onboardingListStep ::
  "services \<Rightarrow> int \<Rightarrow> jsstring \<Rightarrow> onboarding \<Rightarrow> (jsstring list \<Rightarrow> profile_data \<Rightarrow> profile_data)
     \<Rightarrow> string \<Rightarrow> bot_state \<Rightarrow> bot_output list \<times> bot_state" where
  "onboardingListStep svc uid t ob setKey nextPrompt b =
     (let items = listInput t in
      if items \<noteq> []
      then (case validate (setKey items emptyData) (userProfileSchema svc) of
              Inl err \<Rightarrow> ([onboardingError err], b)
            | Inr _ \<Rightarrow>
                ([Reply (Msg nextPrompt []) NoMarkup],
                 setOnboardingState uid
                   (ob\<lparr>ob_step := ob_step ob + 1, ob_data := setKey items (ob_data ob)\<rparr>) b))
      else ([Reply (Msg nextPrompt []) NoMarkup],
            setOnboardingState uid (ob\<lparr>ob_step := ob_step ob + 1\<rparr>) b))"

definition text_onboarding ::
  "services \<Rightarrow> telegram_user \<Rightarrow> jsstring \<Rightarrow> onboarding \<Rightarrow> bot_state
     \<Rightarrow> bot_output list \<times> bot_state" where
  "text_onboarding svc sender t ob b =
     (let uid = tg_id sender in
      if ob_step ob = 1 then
        (case splitRuns isWhiteSpace (trim t) of
           [] \<Rightarrow> ([Reply (Msg ''onboarding_enter_name'' []) NoMarkup], b)
         | firstName # rest \<Rightarrow>
             let lastName = join (ascii '' '') rest in
             (case validate
                     (if lastName \<noteq> []
                      then emptyData\<lparr>pd_firstName := Some firstName, pd_lastName := Some lastName\<rparr>
                      else emptyData\<lparr>pd_firstName := Some firstName\<rparr>)
                     (userProfileSchema svc) of
                Inl err \<Rightarrow> ([onboardingError err], b)
              | Inr _ \<Rightarrow>
                  ([Reply (Msg ''onboarding_step_2'' []) NoMarkup],
                   setOnboardingState uid
                     (ob\<lparr>ob_step := 2,
                         ob_data := (ob_data ob)\<lparr>pd_firstName := Some firstName,
                                                   pd_lastName := Some lastName\<rparr>\<rparr>) b)))
      else if ob_step ob = 2 then
        onboardingListStep svc uid t ob (\<lambda>xs d. d\<lparr>pd_interests := Some xs\<rparr>)
          ''onboarding_step_3'' b
      else if ob_step ob = 3 then
        onboardingListStep svc uid t ob (\<lambda>xs d. d\<lparr>pd_offerings := Some xs\<rparr>)
          ''onboarding_step_4'' b
      else if ob_step ob = 4 then
        onboardingListStep svc uid t ob (\<lambda>xs d. d\<lparr>pd_lookingFor := Some xs\<rparr>)
          ''onboarding_step_5'' b
      else if ob_step ob = 5 then
        (let code = trim t in
         if code = [] then ([Reply (Msg ''onboarding_enter_code'' []) NoMarkup], b)
         else
           (case joinConference svc sender code (store b) of
              (Inl err, w1) \<Rightarrow> ([onboardingError err], b\<lparr>store := w1\<rparr>)
            | (Inr conference, w1) \<Rightarrow>
                (case upsertProfileForConference (userProfileSchema svc) (newObjectId svc w1)
                        (Some (numberToString uid)) (Some (conf_id conference)) (ob_data ob) w1 of
                   (Inl err, w2) \<Rightarrow> ([onboardingError err], b\<lparr>store := w2\<rparr>)
                 | (Inr _, w2) \<Rightarrow>
                     replyMainMenu svc sender (Msg ''profile_completed'' [conf_title conference])
                       (clearUserState uid (b\<lparr>store := w2\<rparr>)))))
      else ([Reply (Msg ''onboarding_reset'' []) NoMarkup], clearUserState uid b))"

text \<open>The flows kept in \<open>userState\<close>. In each, \<open>t\<close> is the trimmed text and
  \<open>state\<close> the session that was read at the top of the handler; a \<open>catch\<close> replies
  and leaves the session as it is.\<close>

definition text_join_conference ::
  "services \<Rightarrow> telegram_user \<Rightarrow> jsstring \<Rightarrow> bot_state \<Rightarrow> bot_output list \<times> bot_state" where
  "text_join_conference svc sender t b =
     (case joinConference svc sender t (store b) of
        (Inr conference, w1) \<Rightarrow>
          replyMainMenu svc sender
            (Msg ''joined'' [conf_title conference, conf_conferenceCode conference])
            (clearUserState (tg_id sender) (b\<lparr>store := w1\<rparr>))
      | (Inl err, w1) \<Rightarrow>
          ([Reply (if message err = ascii ''CONFERENCE_NOT_FOUND''
                   then Msg ''join_conference_not_found'' [] else Msg ''join_failed'' [])
              NoMarkup],
           b\<lparr>store := w1\<rparr>))"

definition roleNames :: "jsstring list" where
  "roleNames = [ascii ''speaker'', ascii ''investor'', ascii ''participant'', ascii ''organizer'']"

text \<open>A session without a conference code makes the query look for the code
  \<open>undefined\<close>, which no conference has.\<close>

definition text_find_participants ::
  "services \<Rightarrow> telegram_user \<Rightarrow> jsstring \<Rightarrow> user_session \<Rightarrow> bot_state
     \<Rightarrow> bot_output list \<times> bot_state" where
  "text_find_participants svc sender t state b =
     (let parts = filter (\<lambda>s. s \<noteq> []) (splitOn (\<lambda>c. c = 32) t);
          roleAndText =
            (case parts of
               [] \<Rightarrow> (None, None)
             | firstPart # rest \<Rightarrow>
                 if toLowerCase svc firstPart \<in> set roleNames
                 then (Some (toLowerCase svc firstPart), Some (join (ascii '' '') rest))
                 else (None, Some t))
      in case (case st_conferenceCode state of
                 None \<Rightarrow> Inl CONFERENCE_NOT_FOUND
               | Some code \<Rightarrow>
                   searchProfiles (toLowerCase svc) code (fst roleAndText) (snd roleAndText)
                     (Some 20) (store b)) of
           Inl err \<Rightarrow> replyMainMenu svc sender (Msg ''search_error'' []) b
         | Inr (conference, found) \<Rightarrow>
             replyMainMenu svc sender
               (if found = [] then Msg ''no_participants_found'' []
                else Msg ''participants_found''
                       (map (\<lambda>p. case prof_firstName p of None \<Rightarrow> [] | Some n \<Rightarrow> n) found))
               (clearUserState (tg_id sender) b))"

definition text_ask_question ::
  "services \<Rightarrow> telegram_user \<Rightarrow> jsstring \<Rightarrow> user_session \<Rightarrow> bot_state
     \<Rightarrow> bot_output list \<times> bot_state" where
  "text_ask_question svc sender t state b =
     (case askQuestion svc sender (st_conferenceCode state) t
             (case st_targetSpeaker state of
                None \<Rightarrow> None | Some s \<Rightarrow> if s = [] then None else Some s)
             (store b) of
        (Inr conference, w1) \<Rightarrow>
          replyMainMenu svc sender (Msg ''question_sent'' [conf_title conference])
            (clearUserState (tg_id sender) (b\<lparr>store := w1\<rparr>))
      | (Inl err, w1) \<Rightarrow>
          ([Reply (if startsWith (message err) (ascii ''VALIDATION_ERROR:'')
                   then Msg ''question_validation_error'' [message err]
                   else Msg ''question_failed'' [])
              NoMarkup],
           b\<lparr>store := w1\<rparr>))"

definition text_answer_question ::
  "services \<Rightarrow> telegram_user \<Rightarrow> jsstring \<Rightarrow> user_session \<Rightarrow> bot_state
     \<Rightarrow> bot_output list \<times> bot_state" where
  "text_answer_question svc sender t state b =
     (case ensureUserFromTelegram svc sender (store b) of
        (usr, w1) \<Rightarrow>
          (case answerQuestion svc usr (st_conferenceCode state) (st_questionId state) t w1 of
             (Inr q, w2) \<Rightarrow>
               replyMainMenu svc sender
                 (Msg ''answer_saved'' [q_text q, (case q_answer q of None \<Rightarrow> [] | Some a \<Rightarrow> a)])
                 (clearUserState (tg_id sender) (b\<lparr>store := w2\<rparr>))
           | (Inl err, w2) \<Rightarrow>
               ([Reply (if message err = ascii ''NOT_SPEAKER'' then Msg ''answer_not_speaker'' []
                        else if message err = ascii ''QUESTION_NOT_FOR_YOU''
                        then Msg ''answer_not_for_you'' []
                        else Msg ''answer_failed'' [])
                   NoMarkup],
                b\<lparr>store := w2\<rparr>)))"

definition text_edit_conference_title ::
  "telegram_user \<Rightarrow> jsstring \<Rightarrow> user_session \<Rightarrow> bot_state \<Rightarrow> bot_output list \<times> bot_state" where
  "text_edit_conference_title sender t state b =
     ([Reply (Msg ''edit_conference_enter_description'' [])
         (InlineKeyboard
            [ascii ''admin:conf:'' @ (case st_conferenceCode state of
                                         None \<Rightarrow> ascii ''undefined'' | Some c \<Rightarrow> c)])],
      setUserState (tg_id sender)
        (state\<lparr>st_title := (if trim t \<noteq> ascii ''-'' then Some (trim t) else None),
               st_step := Some step_enter_description\<rparr>) b)"

definition text_edit_conference_description ::
  "services \<Rightarrow> telegram_user \<Rightarrow> jsstring \<Rightarrow> user_session \<Rightarrow> bot_state
     \<Rightarrow> bot_output list \<times> bot_state" where
  "text_edit_conference_description svc sender t state b =
     (case ensureUserFromTelegram svc sender (store b) of
        (usr, w1) \<Rightarrow>
          (case updateConference svc (st_conferenceCode state) usr
                  (case st_title state of
                     None \<Rightarrow> None | Some s \<Rightarrow> if s = [] then None else Some s)
                  (if trim t \<noteq> ascii ''-'' then Some (trim t) else None) w1 of
             (Inr conference, w2) \<Rightarrow>
               replyMainMenu svc sender (Msg ''conference_updated'' [conf_title conference])
                 (clearUserState (tg_id sender) (b\<lparr>store := w2\<rparr>))
           | (Inl err, w2) \<Rightarrow>
               ([Reply (Msg ''conference_update_error'' []) NoMarkup], b\<lparr>store := w2\<rparr>)))"

definition text_create_poll_question ::
  "telegram_user \<Rightarrow> jsstring \<Rightarrow> user_session \<Rightarrow> bot_state \<Rightarrow> bot_output list \<times> bot_state" where
  "text_create_poll_question sender t state b =
     ([Reply (Msg ''create_poll_enter_options'' [])
         (InlineKeyboard
            [case st_conferenceCode state of
               None \<Rightarrow> ascii ''speaker:polls:conf:undefined''
             | Some c \<Rightarrow> if c = [] then ascii ''speaker:polls:conf:'' else ascii ''admin:polls:'' @ c])],
      setUserState (tg_id sender)
        (state\<lparr>st_question := Some t, st_step := Some step_enter_options\<rparr>) b)"

definition text_create_poll_options ::
  "services \<Rightarrow> telegram_user \<Rightarrow> jsstring \<Rightarrow> user_session \<Rightarrow> bot_state
     \<Rightarrow> bot_output list \<times> bot_state" where
  "text_create_poll_options svc sender t state b =
     (case ensureUserFromTelegram svc sender (store b) of
        (usr, w1) \<Rightarrow>
          let options = filter (\<lambda>s. s \<noteq> []) (map trim (splitOn (\<lambda>c. c = 44) t)) in
          if length options < 2
          then ([Reply (Msg ''create_poll_two_options'' []) NoMarkup], b\<lparr>store := w1\<rparr>)
          else
            (case createPoll svc usr (st_conferenceCode state) (st_question state) options w1 of
               (Inr p, w2) \<Rightarrow>
                 replyMainMenu svc sender (Msg ''poll_created'' (poll_question p # options))
                   (clearUserState (tg_id sender) (b\<lparr>store := w2\<rparr>))
             | (Inl err, w2) \<Rightarrow>
                 ([Reply (Msg ''poll_create_error'' []) NoMarkup], b\<lparr>store := w2\<rparr>)))"

text \<open>The edit-poll step reads \<open>joinState.pollId\<close>. No \<open>joinState\<close> is declared in
  bot.js, in any scope: evaluating the identifier throws. The \<open>try\<close> block is
  \<open>text_edit_poll_try\<close>, which gives the error it throws or what it returns, and the
  store at that moment; \<open>text_edit_poll\<close> adds the \<open>catch\<close>.\<close>

definition joinState :: "js_error + user_session" where
  "joinState = Inl (ReferenceError (ascii ''joinState is not defined''))"

definition text_edit_poll_try ::
  "services \<Rightarrow> telegram_user \<Rightarrow> jsstring \<Rightarrow> bot_state
     \<Rightarrow> (js_error + bot_output list \<times> bot_state) \<times> world" where
  "text_edit_poll_try svc sender t b =
     (case ensureUserFromTelegram svc sender (store b) of
        (usr, w1) \<Rightarrow>
          (case joinState of
             Inl err \<Rightarrow> (Inl err, w1)
           | Inr js \<Rightarrow>
               (case (case st_pollId js of None \<Rightarrow> None | Some pid \<Rightarrow> findPollById pid w1) of
                  None \<Rightarrow> (Inr ([Reply (Msg ''poll_not_found'' []) NoMarkup], b\<lparr>store := w1\<rparr>), w1)
                | Some p \<Rightarrow>
                    (case updatePoll svc usr (st_pollId js)
                            (if trim t \<noteq> ascii ''-'' then Some (trim t) else None) w1 of
                       (Inl err, w2) \<Rightarrow> (Inl err, w2)
                     | (Inr _, w2) \<Rightarrow>
                         (let r = replyMainMenu svc sender (Msg ''poll_updated'' [])
                                    (clearUserState (tg_id sender) (b\<lparr>store := w2\<rparr>))
                          in (Inr r, store (snd r)))))))"

definition text_edit_poll ::
  "services \<Rightarrow> telegram_user \<Rightarrow> jsstring \<Rightarrow> bot_state \<Rightarrow> bot_output list \<times> bot_state" where
  "text_edit_poll svc sender t b =
     (case text_edit_poll_try svc sender t b of
        (Inl err, w) \<Rightarrow> ([Reply (Msg ''poll_update_error'' []) NoMarkup], b\<lparr>store := w\<rparr>)
      | (Inr r, w) \<Rightarrow> r)"

definition text_assign_admin ::
  "services \<Rightarrow> telegram_user \<Rightarrow> jsstring \<Rightarrow> user_session \<Rightarrow> bot_state
     \<Rightarrow> bot_output list \<times> bot_state" where
  "text_assign_admin svc sender t state b =
     (case ensureUserFromTelegram svc sender (store b) of
        (usr, w1) \<Rightarrow>
          if \<not> userIsMainAdmin svc usr
          then ([Reply (Msg ''access_denied'' []) NoMarkup],
                clearUserState (tg_id sender) (b\<lparr>store := w1\<rparr>))
          else if \<not> isDigits (trim t)
          then ([Reply (Msg ''assign_admin_bad_id'' []) NoMarkup], b\<lparr>store := w1\<rparr>)
          else
            (case assignConferenceAdmin svc usr (st_conferenceCode state) (trim t) w1 of
               (Inr _, w2) \<Rightarrow>
                 ([Reply (Msg ''admin_assigned'' [trim t])
                     (InlineKeyboard
                        [ascii ''admin:manage_admins:conf:''
                           @ (case st_conferenceCode state of
                                None \<Rightarrow> ascii ''undefined'' | Some c \<Rightarrow> c)])],
                  clearUserState (tg_id sender) (b\<lparr>store := w2\<rparr>))
             | (Inl err, w2) \<Rightarrow>
                 ([Reply (if message err = ascii ''TARGET_USER_NOT_FOUND''
                          then Msg ''assign_admin_user_not_found'' []
                          else if message err = ascii ''CONFERENCE_NOT_FOUND''
                          then Msg ''assign_admin_conference_not_found'' []
                          else if message err = ascii ''ACCESS_DENIED''
                          then Msg ''assign_admin_access_denied'' []
                          else Msg ''assign_admin_error'' [])
                     NoMarkup],
                  b\<lparr>store := w2\<rparr>)))"

definition text_set_slide ::
  "services \<Rightarrow> telegram_user \<Rightarrow> jsstring \<Rightarrow> user_session \<Rightarrow> bot_state
     \<Rightarrow> bot_output list \<times> bot_state" where
  "text_set_slide svc sender t state b =
     (case ensureUserFromTelegram svc sender (store b) of
        (usr, w1) \<Rightarrow>
          let parts = filter (\<lambda>s. s \<noteq> []) (splitOn (\<lambda>c. c = 32) t) in
          (case setSlide (userIsMainAdmin svc) (slideSchema svc) usr (st_conferenceCode state)
                  (case parts of [] \<Rightarrow> None | u # rest \<Rightarrow> Some u)
                  (Some (join (ascii '' '') (tl parts))) w1 of
             (Inr conference, w2) \<Rightarrow>
               ([Reply (Msg ''slide_updated'' [])
                   (InlineKeyboard
                      [ascii ''admin:slides:''
                         @ (case st_conferenceCode state of
                              None \<Rightarrow> ascii ''undefined'' | Some c \<Rightarrow> c)])],
                clearUserState (tg_id sender) (b\<lparr>store := w2\<rparr>))
           | (Inl err, w2) \<Rightarrow>
               ([Reply (Msg ''slide_error'' []) NoMarkup], b\<lparr>store := w2\<rparr>)))"

definition text_create_conference ::
  "services \<Rightarrow> telegram_user \<Rightarrow> jsstring \<Rightarrow> bot_state \<Rightarrow> bot_output list \<times> bot_state" where
  "text_create_conference svc sender t b =
     (case ensureUserFromTelegram svc sender (store b) of
        (usr, w1) \<Rightarrow>
          (case createConference svc usr t w1 of
             (Inr conference, w2) \<Rightarrow>
               replyMainMenu svc sender
                 (Msg ''conference_created'' [conf_title conference, conf_conferenceCode conference])
                 (clearUserState (tg_id sender) (b\<lparr>store := w2\<rparr>))
           | (Inl err, w2) \<Rightarrow>
               ([Reply (Msg ''conference_create_error'' []) NoMarkup], b\<lparr>store := w2\<rparr>)))"

text \<open>The branches on the session, in the order of the source. The onboarding flow runs
  only when \<open>userState\<close> has no entry.\<close>

definition text_flow ::
  "services \<Rightarrow> telegram_user \<Rightarrow> jsstring \<Rightarrow> user_session \<Rightarrow> bot_state
     \<Rightarrow> bot_output list \<times> bot_state" where
  "text_flow svc sender t state b =
     (if st_flow state = flow_join_conference then text_join_conference svc sender t b
      else if st_flow state = flow_find_participants \<and> st_step state = Some step_enter_query
      then text_find_participants svc sender t state b
      else if st_flow state = flow_ask_question \<and> st_step state = Some step_enter_question
      then text_ask_question svc sender t state b
      else if st_flow state = flow_answer_question \<and> st_step state = Some step_enter_answer
      then text_answer_question svc sender t state b
      else if st_flow state = flow_edit_conference \<and> st_step state = Some step_enter_title
      then text_edit_conference_title sender t state b
      else if st_flow state = flow_edit_conference \<and> st_step state = Some step_enter_description
      then text_edit_conference_description svc sender t state b
      else if st_flow state = flow_create_poll \<and> st_step state = Some step_enter_question
      then text_create_poll_question sender t state b
      else if st_flow state = flow_create_poll \<and> st_step state = Some step_enter_options
      then text_create_poll_options svc sender t state b
      else if st_flow state = flow_edit_poll \<and> st_step state = Some step_enter_question
      then text_edit_poll svc sender t b
      else if st_flow state = flow_assign_admin \<and> st_step state = Some step_enter_telegram_id
      then text_assign_admin svc sender t state b
      else if st_flow state = flow_set_slide \<and> st_step state = Some step_enter_url
      then text_set_slide svc sender t state b
      else if st_flow state = flow_create_conference \<and> st_step state = Some step_enter_title
      then text_create_conference svc sender t b
      else replyMainMenu svc sender (Msg ''not_processed_state_reset'' [])
             (clearUserState (tg_id sender) b))"

text \<open>The callback of \<open>bot.on('text', ...)\<close>: \<open>rawText\<close> is \<open>ctx.message.text\<close>.\<close>

definition on_text ::
  "services \<Rightarrow> telegram_user \<Rightarrow> jsstring \<Rightarrow> bot_state \<Rightarrow> bot_output list \<times> bot_state" where
  "on_text svc sender rawText b =
     (if startsWith rawText (ascii ''/'') then ([], b)
      else
        let t = trim rawText in
        if isCancel svc t
        then replyMainMenu svc sender (Msg ''action_cancelled'' []) (clearUserState (tg_id sender) b)
        else
          (case userState b (tg_id sender) of
             None \<Rightarrow>
               (case onboardingState b (tg_id sender) of
                  None \<Rightarrow> replyMainMenu svc sender (Msg ''choose_from_menu'' []) b
                | Some ob \<Rightarrow> text_onboarding svc sender t ob b)
           | Some state \<Rightarrow> text_flow svc sender t state b))"

text \<open>The labels of the reply keyboard, as the code units of the string literals given to
  \<open>bot.hears\<close>: an emoji, a space and the Russian caption.\<close>

definition label_my_conferences :: jsstring where
  "label_my_conferences =
     [55357, 56523, 32, 1052, 1086, 1080, 32, 1082, 1086, 1085, 1092, 1077, 1088, 1077, 1085,
      1094, 1080, 1080]"

definition label_join :: jsstring where
  "label_join =
     [10133, 32, 1055, 1088, 1080, 1089, 1086, 1077, 1076, 1080, 1085, 1080, 1090, 1100, 1089,
      1103]"

definition label_profile :: jsstring where
  "label_profile = [55357, 56420, 32, 1055, 1088, 1086, 1092, 1080, 1083, 1100]"

definition label_find_participants :: jsstring where
  "label_find_participants =
     [55357, 56589, 32, 1053, 1072, 1081, 1090, 1080, 32, 1091, 1095, 1072, 1089, 1090, 1085,
      1080, 1082, 1086, 1074]"

definition label_ask_question :: jsstring where
  "label_ask_question =
     [10067, 32, 1047, 1072, 1076, 1072, 1090, 1100, 32, 1074, 1086, 1087, 1088, 1086, 1089]"

definition label_polls :: jsstring where
  "label_polls = [55357, 56522, 32, 1054, 1087, 1088, 1086, 1089, 1099]"

definition hears_labels :: "jsstring list" where
  "hears_labels =
     [label_my_conferences, label_join, label_profile, label_find_participants,
      label_ask_question, label_polls]"

text \<open>What the bot does with a text message that is not a bot command. Telegraf runs the
  handlers in the order of their registration: \<open>bot.start\<close> and \<open>bot.command\<close> take
  only a message that begins with their command, the \<open>bot.action\<close> handlers take only
  callback queries, each \<open>bot.hears\<close> handler takes the message whose text is its label
  and, having no \<open>next\<close>, ends the chain, and \<open>bot.on('text')\<close>, registered last,
  gets every other text. (The two command handlers are not embedded: for \<open>/start\<close> and
  \<open>/cancel\<close> they run first.)\<close>

definition text_update ::
  "services \<Rightarrow> telegram_user \<Rightarrow> jsstring \<Rightarrow> bot_state \<Rightarrow> bot_output list \<times> bot_state" where
  "text_update svc sender rawText b =
     (if rawText = label_my_conferences then hears_my_conferences svc sender b
      else if rawText = label_join then hears_join sender b
      else if rawText = label_profile then hears_profile sender b
      else if rawText = label_find_participants then hears_find_participants svc sender b
      else if rawText = label_ask_question then hears_ask_question svc sender b
      else if rawText = label_polls then hears_polls svc sender b
      else on_text svc sender rawText b)"


section \<open>Example data\<close>

text \<open>A small store on which the theorems below are instantiated: one conference with code
  \<open>abc123\<close> whose only admin is the profile of account 100, a second participant 200,
  and no Socket.IO server configured.\<close>

definition example_conference :: conference where
  "example_conference =
     \<lparr>conf_id = ObjectId (ascii ''c1''), conf_title = ascii ''DevCon'',
      conf_description = None, conf_conferenceCode = ascii ''abc123'',
      conf_isActive = True, conf_isEnded = False,
      conf_admins = [ObjectId (ascii ''p1'')],
      conf_currentSlideUrl = None, conf_currentSlideTitle = None\<rparr>"

definition example_profile :: "jsstring \<Rightarrow> jsstring \<Rightarrow> jsstring list \<Rightarrow> profile" where
  "example_profile pid tid interests =
     \<lparr>prof_id = ObjectId pid, prof_telegramId = tid,
      prof_conference = ObjectId (ascii ''c1''), prof_isActive = True,
      prof_onboardingCompleted = True, prof_firstName = None, prof_lastName = None,
      prof_interests = interests, prof_offerings = [], prof_lookingFor = [],
      prof_roles = []\<rparr>"

definition example_user :: "jsstring \<Rightarrow> user" where
  "example_user tid = \<lparr>user_telegramId = tid, user_username = None, user_globalRole = plain_user\<rparr>"

definition example_world :: world where
  "example_world =
     \<lparr>users = [example_user (ascii ''100''), example_user (ascii ''200'')],
      conferences = [example_conference],
      profiles = [example_profile (ascii ''p1'') (ascii ''100'') [ascii ''AI''],
                  example_profile (ascii ''p2'') (ascii ''200'') [ascii ''Web3'']],
      questions = [],
      polls = [],
      ioInstance = None\<rparr>"

text \<open>The same store when the first profile has not filled in any of its lists.\<close>

definition example_unfilled :: world where
  "example_unfilled =
     example_world\<lparr>profiles := [example_profile (ascii ''p1'') (ascii ''100'') [],
                                example_profile (ascii ''p2'') (ascii ''200'') [ascii ''Web3'']]\<rparr>"

definition example_slideSchema :: "(slide_input, slide_value) schema" where
  "example_slideSchema i =
     (case (si_url i, si_conferenceCode i) of
        (Some u, Some c) \<Rightarrow>
          ([], \<lparr>sv_url = u, sv_title = trim (si_title i), sv_conferenceCode = trim c\<rparr>)
      | _ \<Rightarrow> ([ascii ''required''], \<lparr>sv_url = [], sv_title = [], sv_conferenceCode = []\<rparr>))"

definition example_slide :: conference where
  "example_slide =
     example_conference\<lparr>conf_currentSlideUrl := Some (ascii ''https://x.org/s.png''),
                        conf_currentSlideTitle := Some (ascii ''Intro'')\<rparr>"

definition example_profileSchema :: "(profile_data, profile_data) schema" where
  "example_profileSchema d =
     (if pd_firstName d = Some [] then ([ascii ''firstName is not allowed to be empty''], d)
      else ([], d))"



definition example_poll :: poll where
  "example_poll =
     \<lparr>poll_id = ObjectId (ascii ''q1''), poll_conference = ObjectId (ascii ''c1''),
      poll_question = ascii ''Lunch or dinner?'',
      poll_options = [\<lparr>opt_id = 0, opt_text = ascii ''Lunch'', opt_voters = []\<rparr>,
                      \<lparr>opt_id = 1, opt_text = ascii ''Dinner'', opt_voters = []\<rparr>],
      poll_isActive = True\<rparr>"

definition example_voted :: poll where
  "example_voted =
     example_poll\<lparr>poll_options :=
        [\<lparr>opt_id = 0, opt_text = ascii ''Lunch'', opt_voters = [7]\<rparr>,
         \<lparr>opt_id = 1, opt_text = ascii ''Dinner'', opt_voters = []\<rparr>]\<rparr>"

text \<open>The case mapping of the examples folds Basic Latin (A to Z) and the Cyrillic
  capitals (U+0410 to U+042F to U+0430 to U+044F, U+0400 to U+040F to U+0450 to U+045F)
  and leaves every other code unit as it is. On text made of these letters and of
  characters without case (digits, punctuation, emoji), which is all the examples use, it
  is what the engine computes.\<close>

definition lowerUnit :: "nat \<Rightarrow> nat" where
  "lowerUnit c =
     (if 65 \<le> c \<and> c \<le> 90 then c + 32
      else if 1040 \<le> c \<and> c \<le> 1071 then c + 32
      else if 1024 \<le> c \<and> c \<le> 1039 then c + 80
      else c)"

definition example_toLowerCase :: "jsstring \<Rightarrow> jsstring" where
  "example_toLowerCase s = map lowerUnit s"

definition example_sender :: telegram_user where
  "example_sender = \<lparr>tg_id = 7, tg_username = None, tg_first_name = ascii ''X''\<rparr>"

text \<open>Services for the examples: the account lookup and the main menu write nothing,
  every conference of the store is listed for every account, joining and asking succeed
  for a known conference code, and the operations of moderators are refused.\<close>

definition example_services :: services where
  "example_services =
     \<lparr>ensureUserFromTelegram = (\<lambda>sender w. (example_user (numberToString (tg_id sender)), w)),
      userIsMainAdmin = (\<lambda>usr. False),
      listConferencesForUser = (\<lambda>usr w. conferences w),
      joinConference = (\<lambda>sender code w.
         case findConferenceByCode code w of
           None \<Rightarrow> (Inl CONFERENCE_NOT_FOUND, w) | Some c \<Rightarrow> (Inr c, w)),
      askQuestion = (\<lambda>sender code t target w.
         case code of
           None \<Rightarrow> (Inl CONFERENCE_NOT_FOUND, w)
         | Some c \<Rightarrow> (case findConferenceByCode c w of
                       None \<Rightarrow> (Inl CONFERENCE_NOT_FOUND, w) | Some conf \<Rightarrow> (Inr conf, w))),
      answerQuestion = (\<lambda>usr code qid t w. (Inl (Error (ascii ''NOT_SPEAKER'')), w)),
      updateConference = (\<lambda>code usr newTitle newDescription w. (Inl ACCESS_DENIED, w)),
      createPoll = (\<lambda>usr code q options w. (Inl ACCESS_DENIED, w)),
      updatePoll = (\<lambda>usr pid q w. (Inl ACCESS_DENIED, w)),
      assignConferenceAdmin = (\<lambda>usr code tid w. (Inl ACCESS_DENIED, w)),
      createConference = (\<lambda>usr t w. (Inl ACCESS_DENIED, w)),
      userProfileSchema = example_profileSchema,
      slideSchema = example_slideSchema,
      newObjectId = (\<lambda>w. ObjectId (ascii ''p'' @ natToString (Suc (length (profiles w))))),
      getMainMenu = (\<lambda>sender w. (MainMenu, w)),
      toLowerCase = example_toLowerCase\<rparr>"

definition example_bot :: bot_state where
  "example_bot = \<lparr>userState = Map.empty, onboardingState = Map.empty, store = example_world\<rparr>"

definition example_editing :: bot_state where
  "example_editing =
     \<lparr>userState = [7 \<mapsto> (session flow_edit_poll (Some step_enter_question))
                            \<lparr>st_pollId := Some (ascii ''q1'')\<rparr>],
      onboardingState = Map.empty,
      store = example_world\<lparr>polls := [example_poll]\<rparr>\<rparr>"

definition example_onboarding :: bot_state where
  "example_onboarding =
     \<lparr>userState = Map.empty,
      onboardingState =
        [7 \<mapsto> \<lparr>ob_step = 2,
                 ob_data = emptyData\<lparr>pd_firstName := Some (ascii ''Ann''),
                                     pd_lastName := Some (ascii ''Lee'')\<rparr>\<rparr>],
      store = example_world\<rparr>"


section \<open>Properties of the slide service\<close>

lemma find_save_conference:
  "find (\<lambda>c. conf_conferenceCode c = code) cs = Some c \<Longrightarrow>
   conf_conferenceCode c' = code \<Longrightarrow> conf_id c' = conf_id c \<Longrightarrow>
   find (\<lambda>c. conf_conferenceCode c = code) (map (\<lambda>d. if conf_id d = conf_id c' then c' else d) cs) = Some c'"
  by (induction cs) (auto split: if_splits)

lemma find_code: "find (\<lambda>c. conf_conferenceCode c = code) cs = Some c \<Longrightarrow> conf_conferenceCode c = code"
  by (induction cs) (auto split: if_splits)

lemma toString_inj: "toString a = toString b \<longleftrightarrow> a = b"
  by (cases a; cases b) simp

lemma assert_iff:
  "assertConferenceAdmin isMain u c w = Inr () \<longleftrightarrow>
     isMain u \<or> (\<exists>p \<in> set (profiles w). prof_telegramId p = user_telegramId u
                    \<and> prof_conference p = conf_id c \<and> prof_id p \<in> set (conf_admins c))"
  unfolding assertConferenceAdmin_def Let_def list_ex_iff
  by (auto simp: toString_inj filter_empty_conv image_iff)

lemma assert_cases:
  "assertConferenceAdmin isMain u c w = Inr () \<or> assertConferenceAdmin isMain u c w = Inl ACCESS_DENIED"
  unfolding assertConferenceAdmin_def Let_def by auto

lemma setSlide_denied:
  assumes "assertConferenceAdmin isMain u c w \<noteq> Inr ()"
    and "validate \<lparr>si_url = slideUrl, si_title = (case slideTitle of None \<Rightarrow> [] | Some t \<Rightarrow> t),
                   si_conferenceCode = code\<rparr> sch = Inr v"
    and "findConferenceByCode (sv_conferenceCode v) w = Some c"
  shows "setSlide isMain sch u code slideUrl slideTitle w = (Inl ACCESS_DENIED, w)"
  using assms assert_cases[of isMain u c w] by (auto simp: setSlide_def)

lemma clearSlide_denied:
  assumes "assertConferenceAdmin isMain u c w \<noteq> Inr ()"
    and "findConferenceByCode code w = Some c"
  shows "clearSlide isMain u code w = (Inl ACCESS_DENIED, w)"
  using assms assert_cases[of isMain u c w] by (auto simp: clearSlide_def)

text \<open>
  C4. \<open>assertConferenceAdmin\<close> succeeds exactly when the acting user is a main admin
  or one of the user's profiles for this conference is listed in the conference's admins.
  Otherwise it throws \<open>ACCESS_DENIED\<close>, and then \<open>setSlide\<close> and \<open>clearSlide\<close>
  return that error with the store as it was: the slide fields are not changed and nothing
  is emitted.
\<close>

theorem conference_admin_check:
  "(assertConferenceAdmin isMain u c w = Inr () \<longleftrightarrow>
      isMain u \<or> (\<exists>p \<in> set (profiles w). prof_telegramId p = user_telegramId u
                     \<and> prof_conference p = conf_id c \<and> prof_id p \<in> set (conf_admins c)))
   \<and> (assertConferenceAdmin isMain u c w = Inr ()
        \<or> assertConferenceAdmin isMain u c w = Inl ACCESS_DENIED)
   \<and> (assertConferenceAdmin isMain u c w \<noteq> Inr () \<longrightarrow>
        (\<forall>sch code slideUrl slideTitle v.
            validate \<lparr>si_url = slideUrl,
                      si_title = (case slideTitle of None \<Rightarrow> [] | Some t \<Rightarrow> t),
                      si_conferenceCode = code\<rparr> sch = Inr v
            \<longrightarrow> findConferenceByCode (sv_conferenceCode v) w = Some c
            \<longrightarrow> setSlide isMain sch u code slideUrl slideTitle w = (Inl ACCESS_DENIED, w))
        \<and> (\<forall>code. findConferenceByCode code w = Some c
            \<longrightarrow> clearSlide isMain u code w = (Inl ACCESS_DENIED, w)))"
  using assert_iff[of isMain u c w] assert_cases[of isMain u c w]
    setSlide_denied[of isMain u c w] clearSlide_denied[of isMain u c w]
  by blast

text \<open>Account 100 is admitted through its profile; account 200 is refused and both slide
  operations leave the store alone.\<close>

theorem conference_admin_check_witness:
  "assertConferenceAdmin (\<lambda>_. False) (example_user (ascii ''100'')) example_conference example_world = Inr ()
   \<and> assertConferenceAdmin (\<lambda>_. False) (example_user (ascii ''200'')) example_conference example_world
       = Inl ACCESS_DENIED
   \<and> setSlide (\<lambda>_. False) example_slideSchema (example_user (ascii ''200''))
        (Some (ascii ''abc123'')) (Some (ascii ''https://x.org/s.png'')) (Some (ascii ''Intro''))
        example_world = (Inl ACCESS_DENIED, example_world)
   \<and> clearSlide (\<lambda>_. False) (example_user (ascii ''200'')) (ascii ''abc123'') example_world
        = (Inl ACCESS_DENIED, example_world)"
proof -
  have v: "validate \<lparr>si_url = Some (ascii ''https://x.org/s.png''),
                     si_title = (case Some (ascii ''Intro'') of None \<Rightarrow> [] | Some t \<Rightarrow> t),
                     si_conferenceCode = Some (ascii ''abc123'')\<rparr> example_slideSchema
           = Inr \<lparr>sv_url = ascii ''https://x.org/s.png'', sv_title = ascii ''Intro'',
                  sv_conferenceCode = ascii ''abc123''\<rparr>"
    by (simp add: validate_def example_slideSchema_def trim_def ascii_def isWhiteSpace_def)
  have f: "findConferenceByCode (ascii ''abc123'') example_world = Some example_conference"
    by (simp add: findConferenceByCode_def example_world_def example_conference_def)
  have a1: "assertConferenceAdmin (\<lambda>_. False) (example_user (ascii ''100'')) example_conference example_world = Inr ()"
    using conference_admin_check[of "\<lambda>_. False" "example_user (ascii ''100'')" example_conference example_world]
    by (simp add: example_world_def example_conference_def example_profile_def example_user_def)
  have a2: "assertConferenceAdmin (\<lambda>_. False) (example_user (ascii ''200'')) example_conference example_world \<noteq> Inr ()"
    using conference_admin_check[of "\<lambda>_. False" "example_user (ascii ''200'')" example_conference example_world]
    by (simp add: example_world_def example_conference_def example_profile_def example_user_def ascii_def)
  show ?thesis
    using conference_admin_check[of "\<lambda>_. False" "example_user (ascii ''200'')" example_conference example_world]
      a1 a2 v f
    by (metis slide_value.select_convs(3))
qed


lemma ioInstance_save [simp]: "ioInstance (saveConference c w) = ioInstance w"
  by (simp add: saveConference_def)

lemma ioInstance_emit:
  "ioInstance (emitToConference cid ev pl w) =
     map_option (\<lambda>io. io @ [(ascii ''conference-'' @ toString cid, ev, pl)]) (ioInstance w)"
  by (cases "ioInstance w") (simp_all add: emitToConference_def)

lemma find_emit [simp]:
  "findConferenceByCode code (emitToConference cid ev pl w) = findConferenceByCode code w"
  by (cases "ioInstance w") (simp_all add: emitToConference_def findConferenceByCode_def)

lemma find_after_save:
  assumes "findConferenceByCode code w = Some c" and "conf_conferenceCode c' = code"
    and "conf_id c' = conf_id c"
  shows "findConferenceByCode code (saveConference c' w) = Some c'"
  using assms find_save_conference[of code "conferences w" c c']
  by (simp add: findConferenceByCode_def saveConference_def)

lemma found_code: "findConferenceByCode code w = Some c \<Longrightarrow> conf_conferenceCode c = code"
  unfolding findConferenceByCode_def by (rule find_code)

lemma setSlide_ok:
  assumes "setSlide isMain sch u code slideUrl slideTitle w = (Inr saved, w')"
  shows "ioInstance w' =
           map_option (\<lambda>io. io @ [(ascii ''conference-'' @ toString (conf_id saved), slide_updated,
                                    SlidePayload (conf_currentSlideUrl saved) (conf_currentSlideTitle saved))])
             (ioInstance w)
         \<and> (\<exists>v. validate \<lparr>si_url = slideUrl,
                           si_title = (case slideTitle of None \<Rightarrow> [] | Some t \<Rightarrow> t),
                           si_conferenceCode = code\<rparr> sch = Inr v
                \<and> conf_currentSlideUrl saved = Some (sv_url v)
                \<and> conf_currentSlideTitle saved = Some (sv_title v)
                \<and> findConferenceByCode (sv_conferenceCode v) w' = Some saved)"
proof -
  let ?inp = "\<lparr>si_url = slideUrl, si_title = (case slideTitle of None \<Rightarrow> [] | Some t \<Rightarrow> t),
               si_conferenceCode = code\<rparr>"
  from assms obtain v where v: "validate ?inp sch = Inr v"
    by (cases "validate ?inp sch") (auto simp: setSlide_def)
  from assms v obtain c where c: "findConferenceByCode (sv_conferenceCode v) w = Some c"
    by (cases "findConferenceByCode (sv_conferenceCode v) w") (auto simp: setSlide_def)
  from assms v c have ok: "assertConferenceAdmin isMain u c w = Inr ()"
    by (cases "assertConferenceAdmin isMain u c w") (auto simp: setSlide_def)
  define s where "s = c\<lparr>conf_currentSlideUrl := Some (sv_url v),
                            conf_currentSlideTitle := Some (sv_title v)\<rparr>"
  from assms v c ok have saved: "saved = s"
    and w': "w' = emitToConference (conf_id s) slide_updated
                    (SlidePayload (conf_currentSlideUrl s) (conf_currentSlideTitle s))
                    (saveConference s w)"
    by (auto simp: setSlide_def Let_def s_def)
  have "findConferenceByCode (sv_conferenceCode v) (saveConference s w) = Some s"
    using c found_code[OF c] by (intro find_after_save[OF c]) (simp_all add: s_def)
  then show ?thesis
    using v by (auto simp: saved w' ioInstance_emit s_def)
qed

lemma clearSlide_ok:
  assumes "clearSlide isMain u code w = (Inr saved, w')"
  shows "ioInstance w' =
           map_option (\<lambda>io. io @ [(ascii ''conference-'' @ toString (conf_id saved), slide_updated,
                                    SlidePayload None None)])
             (ioInstance w)
         \<and> conf_currentSlideUrl saved = None \<and> conf_currentSlideTitle saved = None
         \<and> findConferenceByCode code w' = Some saved"
proof -
  from assms obtain c where c: "findConferenceByCode code w = Some c"
    by (cases "findConferenceByCode code w") (auto simp: clearSlide_def)
  from assms c have ok: "assertConferenceAdmin isMain u c w = Inr ()"
    by (cases "assertConferenceAdmin isMain u c w") (auto simp: clearSlide_def)
  define s where "s = c\<lparr>conf_currentSlideUrl := None, conf_currentSlideTitle := None\<rparr>"
  from assms c ok have saved: "saved = s"
    and w': "w' = emitToConference (conf_id s) slide_updated (SlidePayload None None)
                    (saveConference s w)"
    by (auto simp: clearSlide_def Let_def s_def)
  have "findConferenceByCode code (saveConference s w) = Some s"
    using c found_code[OF c] by (intro find_after_save[OF c]) (simp_all add: s_def)
  then show ?thesis
    by (auto simp: saved w' ioInstance_emit s_def)
qed

lemma setSlide_failed:
  assumes "setSlide isMain sch u code slideUrl slideTitle w = (Inl e, w')"
  shows "w' = w"
proof -
  let ?inp = "\<lparr>si_url = slideUrl, si_title = (case slideTitle of None \<Rightarrow> [] | Some t \<Rightarrow> t),
               si_conferenceCode = code\<rparr>"
  show ?thesis
  proof (cases "validate ?inp sch")
    case (Inl a)
    with assms show ?thesis by (simp add: setSlide_def)
  next
    case (Inr v)
    show ?thesis
    proof (cases "findConferenceByCode (sv_conferenceCode v) w")
      case None
      with assms Inr show ?thesis by (simp add: setSlide_def)
    next
      case (Some c)
      with assms Inr show ?thesis
        by (cases "assertConferenceAdmin isMain u c w") (simp_all add: setSlide_def Let_def)
    qed
  qed
qed

lemma clearSlide_failed:
  assumes "clearSlide isMain u code w = (Inl e, w')"
  shows "w' = w"
proof (cases "findConferenceByCode code w")
  case None
  with assms show ?thesis by (simp add: clearSlide_def)
next
  case (Some c)
  with assms show ?thesis
    by (cases "assertConferenceAdmin isMain u c w") (simp_all add: clearSlide_def Let_def)
qed

lemma upsert_cases:
  "(\<exists>e. upsertProfileForConference ps fid tid cid d w = (Inl e, w))
   \<or> (\<exists>t c v. tid = Some t \<and> cid = Some c \<and> t \<noteq> [] \<and> validate d ps = Inr v
          \<and> findProfile t c w = None
          \<and> upsertProfileForConference ps fid tid cid d w =
                (Inr ((assignValidated (newUserProfile fid t c) v)\<lparr>prof_onboardingCompleted := True\<rparr>),
                 insertProfile ((assignValidated (newUserProfile fid t c) v)\<lparr>prof_onboardingCompleted := True\<rparr>) w))
   \<or> (\<exists>t c v found. tid = Some t \<and> cid = Some c \<and> t \<noteq> [] \<and> validate d ps = Inr v
          \<and> findProfile t c w = Some found
          \<and> upsertProfileForConference ps fid tid cid d w =
                (Inr ((assignValidated found v)\<lparr>prof_onboardingCompleted := True\<rparr>),
                 updateProfile ((assignValidated found v)\<lparr>prof_onboardingCompleted := True\<rparr>) w))"
proof (cases tid)
  case None
  then show ?thesis by (simp add: upsertProfileForConference_def)
next
  case t: (Some t)
  show ?thesis
  proof (cases cid)
    case None
    with t show ?thesis by (simp add: upsertProfileForConference_def)
  next
    case c: (Some c)
    show ?thesis
    proof (cases "t = []")
      case True
      with t c show ?thesis by (simp add: upsertProfileForConference_def)
    next
      case ne: False
      show ?thesis
      proof (cases "validate d ps")
        case (Inl a)
        with t c ne show ?thesis by (simp add: upsertProfileForConference_def)
      next
        case v: (Inr v)
        show ?thesis
          using t c ne v
          by (cases "findProfile t c w") (simp_all add: upsertProfileForConference_def Let_def)
      qed
    qed
  qed
qed

lemma upsert_ioInstance:
  "ioInstance (snd (upsertProfileForConference ps fid tid cid d w)) = ioInstance w"
  using upsert_cases[of ps fid tid cid d w]
  by (elim disjE exE conjE) (simp_all add: insertProfile_def updateProfile_def)

text \<open>
  C5, as amended. A successful \<open>setSlide\<close> hands exactly one \<open>slide-updated\<close>
  message for the room \<open>conference-<id>\<close> to the Socket.IO server when one has been set
  (the message carries the url and title that were just persisted), and hands over nothing
  when \<open>ioInstance\<close> is still \<open>null\<close>; a successful \<open>clearSlide\<close> does the same
  with url and title \<open>null\<close>. The payload has the two keys url and title, each a string
  or \<open>null\<close>. A failing \<open>setSlide\<close> or \<open>clearSlide\<close> leaves the whole store as it
  was, and the profile service never touches the server: among the services of the
  sources only these two operations publish.
\<close>

theorem slide_events:
  "(\<forall>saved w'. setSlide isMain sch u code slideUrl slideTitle w = (Inr saved, w') \<longrightarrow>
       ioInstance w' =
         map_option (\<lambda>io. io @ [(ascii ''conference-'' @ toString (conf_id saved), slide_updated,
                                  SlidePayload (conf_currentSlideUrl saved) (conf_currentSlideTitle saved))])
           (ioInstance w)
       \<and> (\<exists>v. validate \<lparr>si_url = slideUrl,
                         si_title = (case slideTitle of None \<Rightarrow> [] | Some t \<Rightarrow> t),
                         si_conferenceCode = code\<rparr> sch = Inr v
              \<and> conf_currentSlideUrl saved = Some (sv_url v)
              \<and> conf_currentSlideTitle saved = Some (sv_title v)
              \<and> findConferenceByCode (sv_conferenceCode v) w' = Some saved))
   \<and> (\<forall>saved w'. clearSlide isMain u clearCode w = (Inr saved, w') \<longrightarrow>
       ioInstance w' =
         map_option (\<lambda>io. io @ [(ascii ''conference-'' @ toString (conf_id saved), slide_updated,
                                  SlidePayload None None)])
           (ioInstance w)
       \<and> conf_currentSlideUrl saved = None \<and> conf_currentSlideTitle saved = None
       \<and> findConferenceByCode clearCode w' = Some saved)
   \<and> (\<forall>e w'. setSlide isMain sch u code slideUrl slideTitle w = (Inl e, w') \<longrightarrow> w' = w)
   \<and> (\<forall>e w'. clearSlide isMain u clearCode w = (Inl e, w') \<longrightarrow> w' = w)
   \<and> ioInstance (snd (upsertProfileForConference ps fid tid cid d w)) = ioInstance w"
proof (intro conjI allI impI)
  fix saved w'
  assume a: "setSlide isMain sch u code slideUrl slideTitle w = (Inr saved, w')"
  show "ioInstance w' =
         map_option (\<lambda>io. io @ [(ascii ''conference-'' @ toString (conf_id saved), slide_updated,
                                  SlidePayload (conf_currentSlideUrl saved) (conf_currentSlideTitle saved))])
           (ioInstance w)"
    using setSlide_ok[OF a] by (rule conjunct1)
  show "\<exists>v. validate \<lparr>si_url = slideUrl,
                         si_title = (case slideTitle of None \<Rightarrow> [] | Some t \<Rightarrow> t),
                         si_conferenceCode = code\<rparr> sch = Inr v
              \<and> conf_currentSlideUrl saved = Some (sv_url v)
              \<and> conf_currentSlideTitle saved = Some (sv_title v)
              \<and> findConferenceByCode (sv_conferenceCode v) w' = Some saved"
    using setSlide_ok[OF a] by (rule conjunct2)
next
  fix saved w'
  assume a: "clearSlide isMain u clearCode w = (Inr saved, w')"
  show "ioInstance w' =
         map_option (\<lambda>io. io @ [(ascii ''conference-'' @ toString (conf_id saved), slide_updated,
                                  SlidePayload None None)])
           (ioInstance w)"
    and "conf_currentSlideUrl saved = None" and "conf_currentSlideTitle saved = None"
    and "findConferenceByCode clearCode w' = Some saved"
    using clearSlide_ok[OF a] by simp_all
next
  fix e w'
  assume "setSlide isMain sch u code slideUrl slideTitle w = (Inl e, w')"
  then show "w' = w" by (rule setSlide_failed)
next
  fix e w'
  assume "clearSlide isMain u clearCode w = (Inl e, w')"
  then show "w' = w" by (rule clearSlide_failed)
next
  show "ioInstance (snd (upsertProfileForConference ps fid tid cid d w)) = ioInstance w"
    by (rule upsert_ioInstance)
qed


lemmas example_defs =
  example_world_def example_conference_def example_profile_def example_user_def
  example_slideSchema_def example_slide_def

lemmas slide_service_defs =
  setSlide_def clearSlide_def validate_def findConferenceByCode_def assertConferenceAdmin_def
  saveConference_def emitToConference_def setIO_def slide_updated_def Let_def

lemma example_setSlide_fst:
  "fst (setSlide (\<lambda>_. False) example_slideSchema (example_user (ascii ''100''))
     (Some (ascii ''abc123'')) (Some (ascii ''https://x.org/s.png'')) (Some (ascii ''Intro''))
     (example_world\<lparr>ioInstance := x\<rparr>)) = Inr example_slide"
  by (cases x) (simp_all add: slide_service_defs example_defs trim_def ascii_def isWhiteSpace_def)

lemma example_setSlide_io:
  "ioInstance (snd (setSlide (\<lambda>_. False) example_slideSchema (example_user (ascii ''100''))
     (Some (ascii ''abc123'')) (Some (ascii ''https://x.org/s.png'')) (Some (ascii ''Intro''))
     (example_world\<lparr>ioInstance := x\<rparr>)))
   = map_option (\<lambda>io. io @ [(ascii ''conference-c1'', ascii ''slide-updated'',
        SlidePayload (Some (ascii ''https://x.org/s.png'')) (Some (ascii ''Intro'')))]) x"
  by (cases x) (simp_all add: slide_service_defs example_defs trim_def ascii_def isWhiteSpace_def)

text \<open>
  C5 as stated fails where no Socket.IO server was set: account 100, an admin of the
  example conference, sets a slide, the operation succeeds and persists it, and no event
  is published.
\<close>

theorem slide_event_needs_io:
  "fst (setSlide (\<lambda>_. False) example_slideSchema (example_user (ascii ''100''))
     (Some (ascii ''abc123'')) (Some (ascii ''https://x.org/s.png'')) (Some (ascii ''Intro''))
     example_world) = Inr example_slide
   \<and> ioInstance (snd (setSlide (\<lambda>_. False) example_slideSchema (example_user (ascii ''100''))
     (Some (ascii ''abc123'')) (Some (ascii ''https://x.org/s.png'')) (Some (ascii ''Intro''))
     example_world)) = None"
  using example_setSlide_fst[of None] example_setSlide_io[of None]
  by (simp add: example_world_def)

text \<open>With a server set, the same call publishes the one event.\<close>

theorem slide_events_witness:
  "ioInstance (snd (setSlide (\<lambda>_. False) example_slideSchema (example_user (ascii ''100''))
     (Some (ascii ''abc123'')) (Some (ascii ''https://x.org/s.png'')) (Some (ascii ''Intro''))
     (example_world\<lparr>ioInstance := Some []\<rparr>)))
   = Some [(ascii ''conference-c1'', ascii ''slide-updated'',
        SlidePayload (Some (ascii ''https://x.org/s.png'')) (Some (ascii ''Intro'')))]"
proof -
  let ?w = "example_world\<lparr>ioInstance := Some []\<rparr>"
  let ?r = "setSlide (\<lambda>_. False) example_slideSchema (example_user (ascii ''100''))
     (Some (ascii ''abc123'')) (Some (ascii ''https://x.org/s.png'')) (Some (ascii ''Intro'')) ?w"
  have r: "?r = (Inr example_slide, snd ?r)"
    using example_setSlide_fst[of "Some []"] by (metis prod.collapse)
  have "ioInstance (snd ?r) =
          map_option (\<lambda>io. io @ [(ascii ''conference-'' @ toString (conf_id example_slide), slide_updated,
             SlidePayload (conf_currentSlideUrl example_slide) (conf_currentSlideTitle example_slide))])
            (ioInstance ?w)"
    using slide_events[of "\<lambda>_. False" example_slideSchema "example_user (ascii ''100'')"
        "Some (ascii ''abc123'')" "Some (ascii ''https://x.org/s.png'')" "Some (ascii ''Intro'')" ?w] r
    by blast
  then show ?thesis
    by (simp add: example_slide_def example_conference_def slide_updated_def ascii_def)
qed

lemma find_io [simp]:
  "findConferenceByCode code (w\<lparr>ioInstance := x\<rparr>) = findConferenceByCode code w"
  by (simp add: findConferenceByCode_def)

lemma assert_io [simp]:
  "assertConferenceAdmin isMain u c (w\<lparr>ioInstance := x\<rparr>) = assertConferenceAdmin isMain u c w"
  by (simp add: assertConferenceAdmin_def)

lemma conferences_emit [simp]:
  "conferences (emitToConference cid ev pl w) = conferences w"
  by (cases "ioInstance w") (simp_all add: emitToConference_def)

lemma setSlide_authorized:
  assumes "validate \<lparr>si_url = slideUrl, si_title = (case slideTitle of None \<Rightarrow> [] | Some t \<Rightarrow> t),
                     si_conferenceCode = code\<rparr> sch = Inr v"
    and "findConferenceByCode (sv_conferenceCode v) w = Some c"
    and "assertConferenceAdmin isMain u c w = Inr ()"
  shows "setSlide isMain sch u code slideUrl slideTitle w =
           (Inr (c\<lparr>conf_currentSlideUrl := Some (sv_url v),
                   conf_currentSlideTitle := Some (sv_title v)\<rparr>),
            emitToConference (conf_id c) slide_updated
              (SlidePayload (Some (sv_url v)) (Some (sv_title v)))
              (saveConference (c\<lparr>conf_currentSlideUrl := Some (sv_url v),
                                 conf_currentSlideTitle := Some (sv_title v)\<rparr>) w))"
  using assms by (simp add: setSlide_def Let_def)

lemma clearSlide_authorized:
  assumes "findConferenceByCode code w = Some c"
    and "assertConferenceAdmin isMain u c w = Inr ()"
  shows "clearSlide isMain u code w =
           (Inr (c\<lparr>conf_currentSlideUrl := None, conf_currentSlideTitle := None\<rparr>),
            emitToConference (conf_id c) slide_updated (SlidePayload None None)
              (saveConference (c\<lparr>conf_currentSlideUrl := None,
                                 conf_currentSlideTitle := None\<rparr>) w))"
  using assms by (simp add: clearSlide_def Let_def)

lemma emit_without_io: "ioInstance w = None \<Longrightarrow> emitToConference cid ev pl w = w"
  by (simp add: emitToConference_def)

lemma save_io: "saveConference c (w\<lparr>ioInstance := x\<rparr>) = (saveConference c w)\<lparr>ioInstance := x\<rparr>"
  by (simp add: saveConference_def)

lemma setSlide_io_independent:
  "fst (setSlide isMain sch u code slideUrl slideTitle (w\<lparr>ioInstance := x\<rparr>))
     = fst (setSlide isMain sch u code slideUrl slideTitle w)
   \<and> conferences (snd (setSlide isMain sch u code slideUrl slideTitle (w\<lparr>ioInstance := x\<rparr>)))
     = conferences (snd (setSlide isMain sch u code slideUrl slideTitle w))"
proof -
  let ?inp = "\<lparr>si_url = slideUrl, si_title = (case slideTitle of None \<Rightarrow> [] | Some t \<Rightarrow> t),
               si_conferenceCode = code\<rparr>"
  show ?thesis
  proof (cases "validate ?inp sch")
    case (Inl a)
    then show ?thesis by (simp add: setSlide_def)
  next
    case (Inr v)
    show ?thesis
    proof (cases "findConferenceByCode (sv_conferenceCode v) w")
      case None
      with Inr show ?thesis by (simp add: setSlide_def)
    next
      case (Some c)
      with Inr show ?thesis
        by (cases "assertConferenceAdmin isMain u c w")
           (simp_all add: setSlide_def Let_def save_io)
    qed
  qed
qed

lemma clearSlide_io_independent:
  "fst (clearSlide isMain u code (w\<lparr>ioInstance := x\<rparr>)) = fst (clearSlide isMain u code w)
   \<and> conferences (snd (clearSlide isMain u code (w\<lparr>ioInstance := x\<rparr>)))
     = conferences (snd (clearSlide isMain u code w))"
proof (cases "findConferenceByCode code w")
  case None
  then show ?thesis by (simp add: clearSlide_def)
next
  case (Some c)
  then show ?thesis
    by (cases "assertConferenceAdmin isMain u c w")
       (simp_all add: clearSlide_def Let_def save_io)
qed

text \<open>
  C6. With no Socket.IO server configured, \<open>emitToConference\<close> returns without doing
  anything (it has no \<open>throw\<close> and its model is total), and \<open>setSlide\<close> and
  \<open>clearSlide\<close> still succeed for a valid request of an authorised user: they return
  the updated conference, and the store they leave is the one in which that conference has
  been saved. Whatever \<open>ioInstance\<close> holds, each of the two operations ends the same way
  (the same conference returned or the same error thrown) and persists the same
  conferences: publishing has no part in the outcome.
\<close>

theorem publish_without_io:
  assumes "ioInstance w = None"
  shows "emitToConference cid ev pl w = w
    \<and> (\<forall>v c. validate \<lparr>si_url = slideUrl,
                          si_title = (case slideTitle of None \<Rightarrow> [] | Some t \<Rightarrow> t),
                          si_conferenceCode = code\<rparr> sch = Inr v
          \<longrightarrow> findConferenceByCode (sv_conferenceCode v) w = Some c
          \<longrightarrow> assertConferenceAdmin isMain u c w = Inr ()
          \<longrightarrow> setSlide isMain sch u code slideUrl slideTitle w =
                 (Inr (c\<lparr>conf_currentSlideUrl := Some (sv_url v),
                         conf_currentSlideTitle := Some (sv_title v)\<rparr>),
                  saveConference (c\<lparr>conf_currentSlideUrl := Some (sv_url v),
                                    conf_currentSlideTitle := Some (sv_title v)\<rparr>) w)
              \<and> findConferenceByCode (sv_conferenceCode v)
                   (saveConference (c\<lparr>conf_currentSlideUrl := Some (sv_url v),
                                      conf_currentSlideTitle := Some (sv_title v)\<rparr>) w)
                 = Some (c\<lparr>conf_currentSlideUrl := Some (sv_url v),
                           conf_currentSlideTitle := Some (sv_title v)\<rparr>))
    \<and> (\<forall>c. findConferenceByCode clearCode w = Some c
          \<longrightarrow> assertConferenceAdmin isMain u c w = Inr ()
          \<longrightarrow> clearSlide isMain u clearCode w =
                 (Inr (c\<lparr>conf_currentSlideUrl := None, conf_currentSlideTitle := None\<rparr>),
                  saveConference (c\<lparr>conf_currentSlideUrl := None,
                                    conf_currentSlideTitle := None\<rparr>) w)
              \<and> findConferenceByCode clearCode
                   (saveConference (c\<lparr>conf_currentSlideUrl := None,
                                      conf_currentSlideTitle := None\<rparr>) w)
                 = Some (c\<lparr>conf_currentSlideUrl := None, conf_currentSlideTitle := None\<rparr>))
    \<and> (\<forall>x. fst (setSlide isMain sch u code slideUrl slideTitle (w\<lparr>ioInstance := x\<rparr>))
               = fst (setSlide isMain sch u code slideUrl slideTitle w)
             \<and> conferences (snd (setSlide isMain sch u code slideUrl slideTitle
                                     (w\<lparr>ioInstance := x\<rparr>)))
               = conferences (snd (setSlide isMain sch u code slideUrl slideTitle w)))
    \<and> (\<forall>x. fst (clearSlide isMain u clearCode (w\<lparr>ioInstance := x\<rparr>))
               = fst (clearSlide isMain u clearCode w)
             \<and> conferences (snd (clearSlide isMain u clearCode (w\<lparr>ioInstance := x\<rparr>)))
               = conferences (snd (clearSlide isMain u clearCode w)))"
proof (intro conjI allI impI)
  show "emitToConference cid ev pl w = w"
    using assms by (rule emit_without_io)
next
  fix v c
  assume v: "validate \<lparr>si_url = slideUrl,
                        si_title = (case slideTitle of None \<Rightarrow> [] | Some t \<Rightarrow> t),
                        si_conferenceCode = code\<rparr> sch = Inr v"
    and c: "findConferenceByCode (sv_conferenceCode v) w = Some c"
    and a: "assertConferenceAdmin isMain u c w = Inr ()"
  let ?s = "c\<lparr>conf_currentSlideUrl := Some (sv_url v), conf_currentSlideTitle := Some (sv_title v)\<rparr>"
  have "ioInstance (saveConference ?s w) = None"
    using assms by simp
  then show "setSlide isMain sch u code slideUrl slideTitle w = (Inr ?s, saveConference ?s w)"
    using setSlide_authorized[OF v c a] by (simp add: emit_without_io)
  show "findConferenceByCode (sv_conferenceCode v) (saveConference ?s w) = Some ?s"
    using found_code[OF c] by (intro find_after_save[OF c]) simp_all
next
  fix c
  assume c: "findConferenceByCode clearCode w = Some c"
    and a: "assertConferenceAdmin isMain u c w = Inr ()"
  let ?s = "c\<lparr>conf_currentSlideUrl := None, conf_currentSlideTitle := None\<rparr>"
  have "ioInstance (saveConference ?s w) = None"
    using assms by simp
  then show "clearSlide isMain u clearCode w = (Inr ?s, saveConference ?s w)"
    using clearSlide_authorized[OF c a] by (simp add: emit_without_io)
  show "findConferenceByCode clearCode (saveConference ?s w) = Some ?s"
    using found_code[OF c] by (intro find_after_save[OF c]) simp_all
next
  fix x
  show "fst (setSlide isMain sch u code slideUrl slideTitle (w\<lparr>ioInstance := x\<rparr>))
          = fst (setSlide isMain sch u code slideUrl slideTitle w)"
    and "conferences (snd (setSlide isMain sch u code slideUrl slideTitle (w\<lparr>ioInstance := x\<rparr>)))
          = conferences (snd (setSlide isMain sch u code slideUrl slideTitle w))"
    by (simp_all add: setSlide_io_independent)
next
  fix x
  show "fst (clearSlide isMain u clearCode (w\<lparr>ioInstance := x\<rparr>))
          = fst (clearSlide isMain u clearCode w)"
    and "conferences (snd (clearSlide isMain u clearCode (w\<lparr>ioInstance := x\<rparr>)))
          = conferences (snd (clearSlide isMain u clearCode w))"
    by (simp_all add: clearSlide_io_independent)
qed

text \<open>On the example store (no server): the slide is set, then cleared again.\<close>

theorem publish_without_io_witness:
  "ioInstance example_world = None
   \<and> setSlide (\<lambda>_. False) example_slideSchema (example_user (ascii ''100''))
        (Some (ascii ''abc123'')) (Some (ascii ''https://x.org/s.png'')) (Some (ascii ''Intro''))
        example_world
      = (Inr example_slide, example_world\<lparr>conferences := [example_slide]\<rparr>)
   \<and> clearSlide (\<lambda>_. False) (example_user (ascii ''100'')) (ascii ''abc123'')
        (example_world\<lparr>conferences := [example_slide]\<rparr>)
      = (Inr example_conference, example_world)"
proof -
  let ?w1 = "example_world\<lparr>conferences := [example_slide]\<rparr>"
  have io: "ioInstance example_world = None" "ioInstance ?w1 = None"
    by (simp_all add: example_world_def)
  have v: "validate \<lparr>si_url = Some (ascii ''https://x.org/s.png''),
                     si_title = (case Some (ascii ''Intro'') of None \<Rightarrow> [] | Some t \<Rightarrow> t),
                     si_conferenceCode = Some (ascii ''abc123'')\<rparr> example_slideSchema
           = Inr \<lparr>sv_url = ascii ''https://x.org/s.png'', sv_title = ascii ''Intro'',
                  sv_conferenceCode = ascii ''abc123''\<rparr>"
    by (simp add: validate_def example_slideSchema_def trim_def ascii_def isWhiteSpace_def)
  have f: "findConferenceByCode
             (sv_conferenceCode \<lparr>sv_url = ascii ''https://x.org/s.png'', sv_title = ascii ''Intro'',
                  sv_conferenceCode = ascii ''abc123''\<rparr>) example_world = Some example_conference"
    "findConferenceByCode (ascii ''abc123'') ?w1 = Some example_slide"
    by (simp_all add: findConferenceByCode_def example_defs)
  have a: "assertConferenceAdmin (\<lambda>_. False) (example_user (ascii ''100'')) example_conference example_world = Inr ()"
    "assertConferenceAdmin (\<lambda>_. False) (example_user (ascii ''100'')) example_slide ?w1 = Inr ()"
    by (simp_all add: assertConferenceAdmin_def example_defs)
  have s1: "setSlide (\<lambda>_. False) example_slideSchema (example_user (ascii ''100''))
        (Some (ascii ''abc123'')) (Some (ascii ''https://x.org/s.png'')) (Some (ascii ''Intro''))
        example_world = (Inr example_slide, ?w1)"
    using publish_without_io[OF io(1), where slideUrl = "Some (ascii ''https://x.org/s.png'')"
        and slideTitle = "Some (ascii ''Intro'')" and code = "Some (ascii ''abc123'')"
        and sch = example_slideSchema and isMain = "\<lambda>_. False"
        and u = "example_user (ascii ''100'')"] v f(1) a(1)
    by (simp add: example_defs saveConference_def)
  have s2: "clearSlide (\<lambda>_. False) (example_user (ascii ''100'')) (ascii ''abc123'') ?w1
      = (Inr example_conference, example_world)"
    using publish_without_io[OF io(2), where clearCode = "ascii ''abc123''"
        and isMain = "\<lambda>_. False" and u = "example_user (ascii ''100'')"] f(2) a(2)
    by (simp add: example_defs saveConference_def)
  show ?thesis using io(1) s1 s2 by simp
qed


section \<open>Properties of the profile service\<close>


lemma find_Some_set: "find P xs = Some x \<Longrightarrow> x \<in> set xs \<and> P x"
  by (induction xs) (auto split: if_splits)




lemma assign_keys [simp]:
  "prof_id (assignValidated p v) = prof_id p"
  "prof_telegramId (assignValidated p v) = prof_telegramId p"
  "prof_conference (assignValidated p v) = prof_conference p"
  by (simp_all add: assignValidated_def)



lemma upsert_failed:
  "upsertProfileForConference sch fid tid cid d w = (Inl e, w') \<Longrightarrow> w' = w"
  using upsert_cases[of sch fid tid cid d w] by auto










section \<open>Properties of the matching service\<close>


lemma startsWith_iff: "startsWith s t \<longleftrightarrow> (\<exists>suf. s = t @ suf)"
  unfolding startsWith_def
  by (metis append_eq_conv_conj append_take_drop_id)

lemma str_includes_iff: "str_includes s t \<longleftrightarrow> (\<exists>pre suf. s = pre @ t @ suf)"
proof (induction s)
  case Nil
  then show ?case by auto
next
  case (Cons c cs)
  show ?case
  proof
    assume "str_includes (c # cs) t"
    then consider "startsWith (c # cs) t" | "str_includes cs t" by auto
    then show "\<exists>pre suf. c # cs = pre @ t @ suf"
    proof cases
      case 1
      then obtain suf where "c # cs = t @ suf" using startsWith_iff by blast
      then have "c # cs = [] @ t @ suf" by simp
      then show ?thesis by blast
    next
      case 2
      then obtain pre suf where "cs = pre @ t @ suf" using Cons.IH by blast
      then have "c # cs = (c # pre) @ t @ suf" by simp
      then show ?thesis by blast
    qed
  next
    assume "\<exists>pre suf. c # cs = pre @ t @ suf"
    then obtain pre suf where e: "c # cs = pre @ t @ suf" by blast
    show "str_includes (c # cs) t"
    proof (cases pre)
      case Nil
      with e have "startsWith (c # cs) t" using startsWith_iff by auto
      then show ?thesis by simp
    next
      case (Cons a pre')
      with e have "cs = pre' @ t @ suf" by simp
      then have "str_includes cs t" using Cons.IH by blast
      then show ?thesis by simp
    qed
  qed
qed

lemma mongoLimit_set: "set (mongoLimit n xs) \<subseteq> set xs"
  by (auto simp: mongoLimit_def dest: in_set_takeD)

lemma mongoLimit_length: "0 < n \<Longrightarrow> length (mongoLimit n xs) \<le> n"
  by (simp add: mongoLimit_def)

lemma searchProfiles_cases:
  "searchProfiles lower code role st limit w = Inr (c, ps) \<Longrightarrow>
   findConferenceByCode code w = Some c
   \<and> (\<exists>found. found = mongoLimit (case limit of None \<Rightarrow> 20 | Some n \<Rightarrow> n)
                        (filter (profileQuery c role) (profiles w))
        \<and> ((\<exists>s. st = Some s \<and> trim s \<noteq> [] \<and> ps = filter (textMatches lower (lower (trim s))) found)
            \<or> ((\<forall>s. st = Some s \<longrightarrow> trim s = []) \<and> ps = found)))"
  unfolding searchProfiles_def Let_def
  by (cases "findConferenceByCode code w"; cases st) (auto simp: trim_def split: if_splits)

lemma searchProfiles_sound:
  assumes "searchProfiles lower code role st limit w = Inr (c, ps)"
  shows "findConferenceByCode code w = Some c
     \<and> (\<forall>p \<in> set ps.
           p \<in> set (profiles w) \<and> prof_conference p = conf_id c \<and> prof_isActive p
           \<and> prof_onboardingCompleted p
           \<and> (\<forall>r. role = Some r \<longrightarrow> r \<noteq> [] \<longrightarrow> r \<in> set (prof_roles p))
           \<and> (\<forall>s. st = Some s \<longrightarrow> trim s \<noteq> [] \<longrightarrow>
                 (\<exists>val \<in> set (prof_interests p @ prof_offerings p @ prof_lookingFor p).
                    \<exists>pre suf. lower val = pre @ lower (trim s) @ suf)))
     \<and> (0 < (case limit of None \<Rightarrow> 20 | Some n \<Rightarrow> n) \<longrightarrow>
           length ps \<le> (case limit of None \<Rightarrow> 20 | Some n \<Rightarrow> n))"
proof -
  define found where "found = mongoLimit (case limit of None \<Rightarrow> 20 | Some n \<Rightarrow> n)
                        (filter (profileQuery c role) (profiles w))"
  from searchProfiles_cases[OF assms]
  have c: "findConferenceByCode code w = Some c"
    and ps: "(\<exists>s. st = Some s \<and> trim s \<noteq> [] \<and> ps = filter (textMatches lower (lower (trim s))) found)
            \<or> ((\<forall>s. st = Some s \<longrightarrow> trim s = []) \<and> ps = found)"
    unfolding found_def by blast+
  have sub: "set ps \<subseteq> set found" using ps by auto
  have q: "\<And>p. p \<in> set found \<Longrightarrow> p \<in> set (profiles w) \<and> profileQuery c role p"
    using mongoLimit_set[of _ "filter (profileQuery c role) (profiles w)"]
    unfolding found_def by auto
  have len: "0 < (case limit of None \<Rightarrow> 20 | Some n \<Rightarrow> n) \<longrightarrow>
           length ps \<le> (case limit of None \<Rightarrow> 20 | Some n \<Rightarrow> n)"
  proof
    assume pos: "0 < (case limit of None \<Rightarrow> 20 | Some n \<Rightarrow> n)"
    have "length ps \<le> length found"
      using ps by (auto intro: length_filter_le)
    also have "\<dots> \<le> (case limit of None \<Rightarrow> 20 | Some n \<Rightarrow> n)"
      unfolding found_def by (rule mongoLimit_length[OF pos])
    finally show "length ps \<le> (case limit of None \<Rightarrow> 20 | Some n \<Rightarrow> n)" .
  qed
  have each: "\<forall>p \<in> set ps.
           p \<in> set (profiles w) \<and> prof_conference p = conf_id c \<and> prof_isActive p
           \<and> prof_onboardingCompleted p
           \<and> (\<forall>r. role = Some r \<longrightarrow> r \<noteq> [] \<longrightarrow> r \<in> set (prof_roles p))
           \<and> (\<forall>s. st = Some s \<longrightarrow> trim s \<noteq> [] \<longrightarrow>
                 (\<exists>val \<in> set (prof_interests p @ prof_offerings p @ prof_lookingFor p).
                    \<exists>pre suf. lower val = pre @ lower (trim s) @ suf))"
  proof
    fix p assume p: "p \<in> set ps"
    then have pq: "p \<in> set (profiles w)" "profileQuery c role p" using sub q by auto
    have tmatch: "\<forall>s. st = Some s \<longrightarrow> trim s \<noteq> [] \<longrightarrow>
                 (\<exists>val \<in> set (prof_interests p @ prof_offerings p @ prof_lookingFor p).
                    \<exists>pre suf. lower val = pre @ lower (trim s) @ suf)"
    proof (intro allI impI)
      fix s assume s: "st = Some s" "trim s \<noteq> []"
      with ps have "ps = filter (textMatches lower (lower (trim s))) found" by auto
      with p have "textMatches lower (lower (trim s)) p" by simp
      then show "\<exists>val \<in> set (prof_interests p @ prof_offerings p @ prof_lookingFor p).
                    \<exists>pre suf. lower val = pre @ lower (trim s) @ suf"
        unfolding textMatches_def list_ex_iff str_includes_iff .
    qed
    from pq(2) have "prof_conference p = conf_id c" "prof_isActive p" "prof_onboardingCompleted p"
      "\<forall>r. role = Some r \<longrightarrow> r \<noteq> [] \<longrightarrow> r \<in> set (prof_roles p)"
      by (auto simp: profileQuery_def)
    with pq(1) tmatch show "p \<in> set (profiles w) \<and> prof_conference p = conf_id c \<and> prof_isActive p
           \<and> prof_onboardingCompleted p
           \<and> (\<forall>r. role = Some r \<longrightarrow> r \<noteq> [] \<longrightarrow> r \<in> set (prof_roles p))
           \<and> (\<forall>s. st = Some s \<longrightarrow> trim s \<noteq> [] \<longrightarrow>
                 (\<exists>val \<in> set (prof_interests p @ prof_offerings p @ prof_lookingFor p).
                    \<exists>pre suf. lower val = pre @ lower (trim s) @ suf))"
      by blast
  qed
  show ?thesis using c each len by blast
qed

lemmas matching_service_defs =
  searchProfiles_def findConferenceByCode_def mongoLimit_def profileQuery_def textMatches_def
  example_toLowerCase_def lowerUnit_def trim_def isWhiteSpace_def startsWith_def Let_def

lemma str_includes_refl: "str_includes s s"
  unfolding str_includes_iff by (intro exI[of _ "[]"]) simp

text \<open>In the store \<open>example_unfilled\<close> the first profile of the conference has no entry
  in its three lists. With limit 1 the query returns it alone and the text filter drops
  it, while the second profile lists the very text that is searched: whatever the case
  mapping.\<close>

lemma example_search_limit_first:
  "searchProfiles lower (ascii ''abc123'') None (Some (ascii '' Web3 '')) (Some 1) example_unfilled
     = Inr (example_conference, [])"
  by (simp add: searchProfiles_def findConferenceByCode_def mongoLimit_def profileQuery_def
        textMatches_def trim_def isWhiteSpace_def Let_def example_unfilled_def example_defs
        ascii_def)

lemma example_match_exists:
  "profileQuery example_conference None (example_profile (ascii ''p2'') (ascii ''200'') [ascii ''Web3''])
   \<and> textMatches lower (lower (trim (ascii '' Web3 '')))
        (example_profile (ascii ''p2'') (ascii ''200'') [ascii ''Web3''])"
proof -
  have "trim (ascii '' Web3 '') = ascii ''Web3''"
    by (simp add: trim_def isWhiteSpace_def ascii_def)
  then show ?thesis
    by (simp add: profileQuery_def textMatches_def example_defs str_includes_refl)
qed

text \<open>
  C10, as amended. Every profile \<open>searchProfiles\<close> returns is a stored profile of the
  conference the code resolves to, active, with onboarding completed, holding the role when
  a non-empty role is given, and, when the free text is not blank, with the trimmed
  lower-cased text inside the lower-cased text of one of its interests, offerings or
  lookingFor entries, the case mapping \<open>lower\<close> being the engine's, whichever it is. For a
  positive limit (20 by default) at most that many profiles are
  returned. The limit is applied before the text filter: there is a store with a matching
  profile for which limit 1 returns nothing.
\<close>

theorem searchProfiles_filters:
  "(\<forall>c ps. searchProfiles lower code role st limit w = Inr (c, ps) \<longrightarrow>
      findConferenceByCode code w = Some c
      \<and> (\<forall>p \<in> set ps.
            p \<in> set (profiles w) \<and> prof_conference p = conf_id c \<and> prof_isActive p
            \<and> prof_onboardingCompleted p
            \<and> (\<forall>r. role = Some r \<longrightarrow> r \<noteq> [] \<longrightarrow> r \<in> set (prof_roles p))
            \<and> (\<forall>s. st = Some s \<longrightarrow> trim s \<noteq> [] \<longrightarrow>
                  (\<exists>val \<in> set (prof_interests p @ prof_offerings p @ prof_lookingFor p).
                     \<exists>pre suf. lower val = pre @ lower (trim s) @ suf)))
      \<and> (0 < (case limit of None \<Rightarrow> 20 | Some n \<Rightarrow> n) \<longrightarrow>
            length ps \<le> (case limit of None \<Rightarrow> 20 | Some n \<Rightarrow> n)))
   \<and> (\<exists>w0 code0 s0 c0 ps0.
         searchProfiles lower code0 None (Some s0) (Some 1) w0 = Inr (c0, ps0) \<and> length ps0 < 1
         \<and> (\<exists>p \<in> set (profiles w0).
               profileQuery c0 None p \<and> textMatches lower (lower (trim s0)) p))"
proof (rule conjI)
  show "\<forall>c ps. searchProfiles lower code role st limit w = Inr (c, ps) \<longrightarrow>
      findConferenceByCode code w = Some c
      \<and> (\<forall>p \<in> set ps.
            p \<in> set (profiles w) \<and> prof_conference p = conf_id c \<and> prof_isActive p
            \<and> prof_onboardingCompleted p
            \<and> (\<forall>r. role = Some r \<longrightarrow> r \<noteq> [] \<longrightarrow> r \<in> set (prof_roles p))
            \<and> (\<forall>s. st = Some s \<longrightarrow> trim s \<noteq> [] \<longrightarrow>
                  (\<exists>val \<in> set (prof_interests p @ prof_offerings p @ prof_lookingFor p).
                     \<exists>pre suf. lower val = pre @ lower (trim s) @ suf)))
      \<and> (0 < (case limit of None \<Rightarrow> 20 | Some n \<Rightarrow> n) \<longrightarrow>
            length ps \<le> (case limit of None \<Rightarrow> 20 | Some n \<Rightarrow> n))"
    using searchProfiles_sound by blast
next
  have "example_profile (ascii ''p2'') (ascii ''200'') [ascii ''Web3'']
          \<in> set (profiles example_unfilled)"
    by (simp add: example_unfilled_def)
  then show "\<exists>w0 code0 s0 c0 ps0.
         searchProfiles lower code0 None (Some s0) (Some 1) w0 = Inr (c0, ps0) \<and> length ps0 < 1
         \<and> (\<exists>p \<in> set (profiles w0).
               profileQuery c0 None p \<and> textMatches lower (lower (trim s0)) p)"
    using example_search_limit_first[of lower] example_match_exists[of lower]
    by (intro exI[of _ example_unfilled] exI[of _ "ascii ''abc123''"] exI[of _ "ascii '' Web3 ''"]
          exI[of _ example_conference] exI[of _ "[]"]) auto
qed

text \<open>
  C10 as stated fails for the limit 0, which MongoDB reads as "no limit": both profiles of
  the example conference are returned.
\<close>

theorem searchProfiles_limit_zero:
  "searchProfiles example_toLowerCase (ascii ''abc123'') None None (Some 0) example_world
     = Inr (example_conference,
            [example_profile (ascii ''p1'') (ascii ''100'') [ascii ''AI''],
             example_profile (ascii ''p2'') (ascii ''200'') [ascii ''Web3'']])"
  by (simp add: matching_service_defs example_defs ascii_def)

text \<open>A search for \<open>web\<close> with the default limit finds the profile interested in Web3.\<close>

theorem searchProfiles_filters_witness:
  "searchProfiles example_toLowerCase (ascii ''abc123'') None (Some (ascii ''web'')) None
     example_world
     = Inr (example_conference, [example_profile (ascii ''p2'') (ascii ''200'') [ascii ''Web3'']])
   \<and> length [example_profile (ascii ''p2'') (ascii ''200'') [ascii ''Web3'']] \<le> (20::nat)
   \<and> prof_isActive (example_profile (ascii ''p2'') (ascii ''200'') [ascii ''Web3''])"
proof -
  have e: "searchProfiles example_toLowerCase (ascii ''abc123'') None (Some (ascii ''web'')) None
     example_world
     = Inr (example_conference, [example_profile (ascii ''p2'') (ascii ''200'') [ascii ''Web3'']])"
    by (simp add: matching_service_defs example_defs ascii_def)
  from searchProfiles_filters[where lower = example_toLowerCase and code = "ascii ''abc123''"
         and role = None and st = "Some (ascii ''web'')" and limit = None and w = example_world] e
  have "(\<forall>p \<in> set [example_profile (ascii ''p2'') (ascii ''200'') [ascii ''Web3'']]. prof_isActive p)
        \<and> length [example_profile (ascii ''p2'') (ascii ''200'') [ascii ''Web3'']] \<le> (20::nat)"
    by (auto simp: )
  with e show ?thesis by simp
qed


section \<open>Properties of poll voting\<close>


lemma recordVote_other:
  "u \<noteq> v \<Longrightarrow>
   length (filter (\<lambda>opt. v \<in> set (opt_voters opt)) (recordVote u i os))
     = length (filter (\<lambda>opt. v \<in> set (opt_voters opt)) os)"
  by (induction os) auto

lemma recordVote_self:
  "\<forall>opt \<in> set os. v \<notin> set (opt_voters opt) \<Longrightarrow>
   length (filter (\<lambda>opt. v \<in> set (opt_voters opt)) (recordVote v i os)) \<le> 1"
  by (induction os) auto

lemma recordVote_ids: "map opt_id (recordVote u i os) = map opt_id os"
  by (induction os) auto

lemma recordVote_keeps:
  "list_ex (\<lambda>opt. v \<in> set (opt_voters opt)) os \<Longrightarrow>
   list_ex (\<lambda>opt. v \<in> set (opt_voters opt)) (recordVote u i os)"
  by (induction os) auto

lemma recordVote_adds:
  "list_ex (\<lambda>opt. opt_id opt = i) os \<Longrightarrow>
   list_ex (\<lambda>opt. u \<in> set (opt_voters opt)) (recordVote u i os)"
  by (induction os) auto

lemma voteInPoll_cases:
  "(\<exists>e. voteInPoll sender pollId optionId w = (Inl e, w))
   \<or> (\<exists>p i. findPollById pollId w = Some p \<and> poll_isActive p \<and> optionId = Some i
          \<and> list_ex (\<lambda>opt. opt_id opt = i) (poll_options p) \<and> \<not> hasVoted (tg_id sender) p
          \<and> voteInPoll sender pollId optionId w =
                (Inr (p\<lparr>poll_options := recordVote (tg_id sender) i (poll_options p)\<rparr>),
                 savePoll (p\<lparr>poll_options := recordVote (tg_id sender) i (poll_options p)\<rparr>) w))"
proof (cases "findPollById pollId w")
  case None
  then show ?thesis by (simp add: voteInPoll_def)
next
  case (Some p)
  show ?thesis
  proof (cases optionId)
    case None
    with Some show ?thesis by (simp add: voteInPoll_def)
  next
    case i: (Some i)
    with Some show ?thesis by (simp add: voteInPoll_def Let_def)
  qed
qed

lemma action_vote_poll_snd:
  "snd (action_vote_poll sender pollId optionId w) = snd (voteInPoll sender pollId optionId w)"
  unfolding action_vote_poll_def
  by (cases "voteInPoll sender pollId optionId w"; cases "fst (voteInPoll sender pollId optionId w)")
     (auto split: option.splits)

lemma vote_keeps_at_most_one:
  assumes inv: "\<forall>p \<in> set (polls w). length (votedOptions v p) \<le> 1"
  shows "\<forall>p \<in> set (polls (snd (voteInPoll sender pollId optionId w))). length (votedOptions v p) \<le> 1"
proof -
  consider (fail) e where "voteInPoll sender pollId optionId w = (Inl e, w)"
    | (ok) p i where "findPollById pollId w = Some p" "\<not> hasVoted (tg_id sender) p"
        "voteInPoll sender pollId optionId w =
           (Inr (p\<lparr>poll_options := recordVote (tg_id sender) i (poll_options p)\<rparr>),
            savePoll (p\<lparr>poll_options := recordVote (tg_id sender) i (poll_options p)\<rparr>) w)"
    using voteInPoll_cases[of sender pollId optionId w] by blast
  then show ?thesis
  proof cases
    case fail
    with inv show ?thesis by simp
  next
    case ok
    let ?p' = "p\<lparr>poll_options := recordVote (tg_id sender) i (poll_options p)\<rparr>"
    have pin: "p \<in> set (polls w)"
      using ok(1) find_Some_set unfolding findPollById_def by fastforce
    have "length (votedOptions v ?p') \<le> 1"
    proof (cases "tg_id sender = v")
      case True
      have "\<forall>opt \<in> set (poll_options p). v \<notin> set (opt_voters opt)"
        using ok(2) True by (simp add: hasVoted_def list_ex_iff)
      then show ?thesis
        using recordVote_self[of "poll_options p" v i] True by (simp add: votedOptions_def)
    next
      case False
      then show ?thesis
        using recordVote_other[of "tg_id sender" v i "poll_options p"] inv pin
        by (simp add: votedOptions_def)
    qed
    then show ?thesis
      using inv ok(3) by (auto simp: savePoll_def)
  qed
qed

lemma attempts_keep_at_most_one:
  "\<forall>p \<in> set (polls w). length (votedOptions v p) \<le> 1 \<Longrightarrow>
   \<forall>p \<in> set (polls (voteAttempts attempts w)). length (votedOptions v p) \<le> 1"
proof (induction attempts arbitrary: w)
  case Nil
  then show ?case by simp
next
  case (Cons a attempts)
  obtain sender pollId optionId where a: "a = (sender, pollId, optionId)"
    by (cases a) auto
  show ?case
    unfolding a voteAttempts.simps action_vote_poll_snd
    by (rule Cons.IH) (rule vote_keeps_at_most_one[OF Cons.prems])
qed


lemma votedOn_iff:
  "votedOn v pollId ids w \<longleftrightarrow>
     (\<exists>p. findPollById pollId w = Some p \<and> poll_isActive p \<and> hasVoted v p
          \<and> map opt_id (poll_options p) = ids)"
  by (cases "findPollById pollId w") (simp_all add: votedOn_def)

lemma find_replace_same:
  "find P xs = Some x \<Longrightarrow> P y \<Longrightarrow> R x \<Longrightarrow> find P (map (\<lambda>d. if R d then y else d) xs) = Some y"
  by (induction xs) (auto split: if_splits)

lemma find_replace_other:
  "(\<And>d. R d \<Longrightarrow> \<not> P d) \<Longrightarrow> \<not> P y \<Longrightarrow>
   find P (map (\<lambda>d. if R d then y else d) xs) = find P xs"
  by (induction xs) auto

lemma vote_keeps_votedOn:
  assumes "votedOn v pollId ids w"
  shows "votedOn v pollId ids (snd (voteInPoll sender pid optionId w))"
proof -
  from assms obtain p where p: "findPollById pollId w = Some p" "poll_isActive p" "hasVoted v p"
      "map opt_id (poll_options p) = ids"
    unfolding votedOn_iff by blast
  consider (fail) e where "voteInPoll sender pid optionId w = (Inl e, w)"
    | (ok) q i where "findPollById pid w = Some q"
        "voteInPoll sender pid optionId w =
           (Inr (q\<lparr>poll_options := recordVote (tg_id sender) i (poll_options q)\<rparr>),
            savePoll (q\<lparr>poll_options := recordVote (tg_id sender) i (poll_options q)\<rparr>) w)"
    using voteInPoll_cases[of sender pid optionId w] by blast
  then show ?thesis
  proof cases
    case fail
    with assms show ?thesis by simp
  next
    case ok
    let ?q' = "q\<lparr>poll_options := recordVote (tg_id sender) i (poll_options q)\<rparr>"
    have qid: "toString (poll_id q) = pid"
      using ok(1) find_Some_set[of "\<lambda>p. toString (poll_id p) = pid"] unfolding findPollById_def by blast
    show ?thesis
    proof (cases "pid = pollId")
      case True
      with ok(1) p(1) have qp: "q = p" by simp
      have "findPollById pollId (savePoll ?q' w) = Some ?q'"
        unfolding findPollById_def savePoll_def
        using p(1) qid True qp
        by (simp add: findPollById_def
              find_replace_same[of "\<lambda>p. toString (poll_id p) = pollId" "polls w" p ?q'
                "\<lambda>d. poll_id d = poll_id p"])
      moreover have "poll_isActive ?q'" "map opt_id (poll_options ?q') = ids"
        using p qp by (simp_all add: recordVote_ids)
      moreover have "hasVoted v ?q'"
        using p(3) qp recordVote_keeps[of v "poll_options p" "tg_id sender" i]
        by (simp add: hasVoted_def)
      ultimately show ?thesis
        using ok(2) unfolding votedOn_iff by auto
    next
      case False
      have "findPollById pollId (savePoll ?q' w) = findPollById pollId w"
        unfolding findPollById_def savePoll_def
        using qid False
        by (simp add: find_replace_other[of "\<lambda>d. poll_id d = poll_id q"
              "\<lambda>p. toString (poll_id p) = pollId" ?q' "polls w"])
      then show ?thesis
        using assms ok(2) unfolding votedOn_iff by simp
    qed
  qed
qed

lemma attempts_keep_votedOn:
  "votedOn v pollId ids w \<Longrightarrow> votedOn v pollId ids (voteAttempts attempts w)"
proof (induction attempts arbitrary: w)
  case Nil
  then show ?case by simp
next
  case (Cons a attempts)
  obtain sender pid optionId where a: "a = (sender, pid, optionId)"
    by (cases a) auto
  show ?case
    unfolding a voteAttempts.simps action_vote_poll_snd
    by (rule Cons.IH) (rule vote_keeps_votedOn[OF Cons.prems])
qed

lemma vote_success_votedOn:
  assumes "voteInPoll sender pollId optionId w = (Inr p1, w1)"
  shows "votedOn (tg_id sender) pollId (map opt_id (poll_options p1)) w1"
proof -
  from voteInPoll_cases[of sender pollId optionId w] assms
  obtain p i where p: "findPollById pollId w = Some p" "poll_isActive p"
      "list_ex (\<lambda>opt. opt_id opt = i) (poll_options p)"
      "p1 = p\<lparr>poll_options := recordVote (tg_id sender) i (poll_options p)\<rparr>"
      "w1 = savePoll p1 w"
    by auto
  have "findPollById pollId w1 = Some p1"
    unfolding findPollById_def p(5) savePoll_def
    using p(1) find_Some_set[of "\<lambda>p. toString (poll_id p) = pollId" "polls w" p]
    by (simp add: findPollById_def p(4)
          find_replace_same[of "\<lambda>p. toString (poll_id p) = pollId" "polls w" p _
                "\<lambda>d. poll_id d = poll_id p"])
  moreover have "hasVoted (tg_id sender) p1"
    using recordVote_adds[OF p(3)] by (simp add: hasVoted_def p(4))
  ultimately show ?thesis
    using p(2) unfolding votedOn_iff by (simp add: p(4))
qed

lemma votedOn_rejects:
  assumes "votedOn (tg_id sender) pollId ids w"
  shows "(\<exists>e. voteInPoll sender pollId optionId w = (Inl e, w))"
    and "i \<in> set ids \<Longrightarrow> voteInPoll sender pollId (Some i) w = (Inl ALREADY_VOTED, w)"
proof -
  from assms obtain p where p: "findPollById pollId w = Some p" "poll_isActive p"
      "hasVoted (tg_id sender) p" "map opt_id (poll_options p) = ids"
    unfolding votedOn_iff by blast
  show "\<exists>e. voteInPoll sender pollId optionId w = (Inl e, w)"
    using p by (cases optionId) (simp_all add: voteInPoll_def)
  assume "i \<in> set ids"
  then have "list_ex (\<lambda>opt. opt_id opt = i) (poll_options p)"
    using p(4) by (auto simp: list_ex_iff)
  then show "voteInPoll sender pollId (Some i) w = (Inl ALREADY_VOTED, w)"
    using p by (simp add: voteInPoll_def)
qed


text \<open>
  C1. For every account, a store in which the account is listed by at most one option of
  each poll stays so under any run of vote attempts. Once a vote of \<open>sender\<close> on the poll
  has been recorded, every later attempt of \<open>sender\<close> on that poll (after any attempts of
  others) fails and leaves the store, and so every tally, as it was; with the id of an
  option of the poll the attempt fails with \<open>ALREADY_VOTED\<close> and the handler answers
  that the user has already voted.
\<close>

theorem vote_exactly_once:
  "((\<forall>p \<in> set (polls w). length (votedOptions voter p) \<le> 1) \<longrightarrow>
      (\<forall>p \<in> set (polls (voteAttempts attempts w)). length (votedOptions voter p) \<le> 1))
   \<and> (\<forall>p1 w1. voteInPoll sender pollId o1 w = (Inr p1, w1) \<longrightarrow>
        (\<forall>o2. \<exists>e. voteInPoll sender pollId o2 (voteAttempts others w1)
                     = (Inl e, voteAttempts others w1))
        \<and> (\<forall>i \<in> set (map opt_id (poll_options p1)).
              voteInPoll sender pollId (Some i) (voteAttempts others w1)
                = (Inl ALREADY_VOTED, voteAttempts others w1)
              \<and> action_vote_poll sender pollId (Some i) (voteAttempts others w1)
                = ([AnswerCbQuery, EditMessageText (Msg ''already_voted'' []) UserMenu],
                   voteAttempts others w1)))"
proof (intro conjI impI allI)
  assume "\<forall>p \<in> set (polls w). length (votedOptions voter p) \<le> 1"
  then show "\<forall>p \<in> set (polls (voteAttempts attempts w)). length (votedOptions voter p) \<le> 1"
    by (rule attempts_keep_at_most_one)
next
  fix p1 w1 o2
  assume "voteInPoll sender pollId o1 w = (Inr p1, w1)"
  then have "votedOn (tg_id sender) pollId (map opt_id (poll_options p1)) (voteAttempts others w1)"
    by (intro attempts_keep_votedOn vote_success_votedOn)
  then show "\<exists>e. voteInPoll sender pollId o2 (voteAttempts others w1) = (Inl e, voteAttempts others w1)"
    by (rule votedOn_rejects(1))
next
  fix p1 w1
  assume "voteInPoll sender pollId o1 w = (Inr p1, w1)"
  then have v: "votedOn (tg_id sender) pollId (map opt_id (poll_options p1)) (voteAttempts others w1)"
    by (intro attempts_keep_votedOn vote_success_votedOn)
  show "\<forall>i \<in> set (map opt_id (poll_options p1)).
              voteInPoll sender pollId (Some i) (voteAttempts others w1)
                = (Inl ALREADY_VOTED, voteAttempts others w1)
              \<and> action_vote_poll sender pollId (Some i) (voteAttempts others w1)
                = ([AnswerCbQuery, EditMessageText (Msg ''already_voted'' []) UserMenu],
                   voteAttempts others w1)"
  proof
    fix i assume "i \<in> set (map opt_id (poll_options p1))"
    then have r: "voteInPoll sender pollId (Some i) (voteAttempts others w1)
                = (Inl ALREADY_VOTED, voteAttempts others w1)"
      by (rule votedOn_rejects(2)[OF v])
    then show "voteInPoll sender pollId (Some i) (voteAttempts others w1)
                = (Inl ALREADY_VOTED, voteAttempts others w1)
              \<and> action_vote_poll sender pollId (Some i) (voteAttempts others w1)
                = ([AnswerCbQuery, EditMessageText (Msg ''already_voted'' []) UserMenu],
                   voteAttempts others w1)"
      by (simp add: action_vote_poll_def ALREADY_VOTED_def)
  qed
qed

lemmas poll_defs =
  voteInPoll_def findPollById_def savePoll_def hasVoted_def votedOptions_def
  action_vote_poll_def Let_def

lemma example_first_vote:
  "voteInPoll example_sender (ascii ''q1'') (Some 0) (example_world\<lparr>polls := [example_poll]\<rparr>)
     = (Inr example_voted, example_world\<lparr>polls := [example_voted]\<rparr>)"
  by (simp add: poll_defs example_poll_def example_voted_def example_sender_def)

text \<open>The scenario of the spec: X votes for Lunch, then for Dinner. The second call fails
  with \<open>ALREADY_VOTED\<close>; the tallies stay 1 and 0.\<close>

theorem vote_exactly_once_witness:
  "voteInPoll example_sender (ascii ''q1'') (Some 1) (example_world\<lparr>polls := [example_voted]\<rparr>)
     = (Inl ALREADY_VOTED, example_world\<lparr>polls := [example_voted]\<rparr>)
   \<and> map (\<lambda>opt. length (opt_voters opt)) (poll_options example_voted) = [1, 0]
   \<and> length (votedOptions 7 example_voted) \<le> 1"
proof -
  let ?w = "example_world\<lparr>polls := [example_poll]\<rparr>"
  have inv: "\<forall>p \<in> set (polls ?w). length (votedOptions 7 p) \<le> 1"
    by (simp add: votedOptions_def example_poll_def)
  have at: "voteAttempts [(example_sender, ascii ''q1'', Some 0)] ?w
              = example_world\<lparr>polls := [example_voted]\<rparr>"
    using example_first_vote by (simp add: action_vote_poll_snd)
  have one: "(1::int) \<in> set (map opt_id (poll_options example_voted))"
    by (simp add: example_voted_def)
  from vote_exactly_once[of ?w 7 "[(example_sender, ascii ''q1'', Some 0)]" example_sender
      "ascii ''q1''" "Some 0" "[]"] inv at example_first_vote one
  show ?thesis
    by (simp add: example_voted_def)
qed


section \<open>Properties of the dialog handlers\<close>


lemma clear_lookup [simp]:
  "userState (clearUserState uid b) uid = None"
  "onboardingState (clearUserState uid b) uid = None"
  "store (clearUserState uid b) = store b"
  by (simp_all add: clearUserState_def)

lemma clear_other:
  "other \<noteq> uid \<Longrightarrow> userState (clearUserState uid b) other = userState b other"
  "other \<noteq> uid \<Longrightarrow> onboardingState (clearUserState uid b) other = onboardingState b other"
  by (simp_all add: clearUserState_def)

lemma clear_no_session:
  "userState b uid = None \<Longrightarrow> onboardingState b uid = None \<Longrightarrow> clearUserState uid b = b"
  by (simp add: clearUserState_def fun_upd_idem)

lemma replyMainMenu_state [simp]:
  "userState (snd (replyMainMenu svc sender msg b)) = userState b"
  "onboardingState (snd (replyMainMenu svc sender msg b)) = onboardingState b"
  "store (snd (replyMainMenu svc sender msg b)) = snd (getMainMenu svc sender (store b))"
  by (simp_all add: replyMainMenu_def split: prod.splits)

lemma replyMainMenu_read_only:
  "snd (getMainMenu svc sender (store b)) = store b \<Longrightarrow>
   snd (replyMainMenu svc sender msg b) = b"
  by (cases "getMainMenu svc sender (store b)") (simp add: replyMainMenu_def)

lemma on_text_cancel:
  "\<not> startsWith rawText (ascii ''/'') \<Longrightarrow> isCancel svc (trim rawText) \<Longrightarrow>
   on_text svc sender rawText b =
     replyMainMenu svc sender (Msg ''action_cancelled'' []) (clearUserState (tg_id sender) b)"
  by (simp add: on_text_def)

lemma on_text_no_session:
  "\<not> startsWith rawText (ascii ''/'') \<Longrightarrow> \<not> isCancel svc (trim rawText) \<Longrightarrow>
   userState b (tg_id sender) = None \<Longrightarrow> onboardingState b (tg_id sender) = None \<Longrightarrow>
   on_text svc sender rawText b = replyMainMenu svc sender (Msg ''choose_from_menu'' []) b"
  by (simp add: on_text_def)

lemma text_update_not_label:
  "rawText \<notin> set hears_labels \<Longrightarrow> text_update svc sender rawText b = on_text svc sender rawText b"
  by (simp add: text_update_def hears_labels_def)

text \<open>
  C2. A text that is not a command and whose trimmed, lower-cased form is the Russian or
  the English cancel word is answered with "action cancelled" by the first test of the
  handler: whatever sessions the account has and whatever the services are, both maps are
  cleared for the account, and the store is touched by nothing but the rendering of the
  main menu (when that writes nothing, the result is the state with the two entries
  removed). The next text of the account that is neither a command nor a cancel word is
  answered as for an account with no active flow.
\<close>

theorem cancel_clears_sessions:
  assumes "\<not> startsWith rawText (ascii ''/'')"
    and "toLowerCase svc (trim rawText) = otmena \<or> toLowerCase svc (trim rawText) = ascii ''cancel''"
  shows "on_text svc sender rawText b =
           replyMainMenu svc sender (Msg ''action_cancelled'' []) (clearUserState (tg_id sender) b)
     \<and> userState (clearUserState (tg_id sender) b) (tg_id sender) = None
     \<and> onboardingState (clearUserState (tg_id sender) b) (tg_id sender) = None
     \<and> store (clearUserState (tg_id sender) b) = store b
     \<and> userState (snd (on_text svc sender rawText b)) (tg_id sender) = None
     \<and> onboardingState (snd (on_text svc sender rawText b)) (tg_id sender) = None
     \<and> store (snd (on_text svc sender rawText b)) = snd (getMainMenu svc sender (store b))
     \<and> (snd (getMainMenu svc sender (store b)) = store b \<longrightarrow>
           snd (on_text svc sender rawText b) = clearUserState (tg_id sender) b)
     \<and> (\<forall>svc2 nextText.
           \<not> startsWith nextText (ascii ''/'') \<longrightarrow> \<not> isCancel svc2 (trim nextText) \<longrightarrow>
           on_text svc2 sender nextText (snd (on_text svc sender rawText b)) =
             replyMainMenu svc2 sender (Msg ''choose_from_menu'' [])
               (snd (on_text svc sender rawText b)))"
proof -
  have c: "isCancel svc (trim rawText)"
    using assms(2) by (auto simp: isCancel_def)
  define after where "after = snd (on_text svc sender rawText b)"
  have r: "on_text svc sender rawText b =
             replyMainMenu svc sender (Msg ''action_cancelled'' []) (clearUserState (tg_id sender) b)"
    by (rule on_text_cancel[OF assms(1) c])
  have u: "userState after (tg_id sender) = None" "onboardingState after (tg_id sender) = None"
    and w: "store after = snd (getMainMenu svc sender (store b))"
    by (simp_all add: after_def r)
  have n: "\<forall>svc2 nextText.
           \<not> startsWith nextText (ascii ''/'') \<longrightarrow> \<not> isCancel svc2 (trim nextText) \<longrightarrow>
           on_text svc2 sender nextText after =
             replyMainMenu svc2 sender (Msg ''choose_from_menu'' []) after"
    using u by (simp add: on_text_no_session)
  have p: "snd (getMainMenu svc sender (store b)) = store b \<longrightarrow>
           after = clearUserState (tg_id sender) b"
    by (simp add: after_def r replyMainMenu_read_only)
  show ?thesis
    using r u w p n unfolding after_def by simp
qed

text \<open>
  C8, as amended. The text comes from an account with no entry in either map, is not a
  command, is none of the six labels of the reply keyboard, and is not one of the two cancel
  words of C2. Then no flow step runs: the only thing the bot does is to send one message
  with the main menu, the advice to use the menu or, for \<open>/cancel\<close> typed after white space
  (which the handler also takes as a cancel), the confirmation of the cancel. Both session
  maps are as they were, so the account still has no session, and the store is the one
  \<open>getMainMenu\<close> leaves: when rendering the menu writes nothing, the state is unchanged.
\<close>

theorem text_without_session:
  assumes "userState b (tg_id sender) = None"
    and "onboardingState b (tg_id sender) = None"
    and "\<not> startsWith rawText (ascii ''/'')"
    and "rawText \<notin> set hears_labels"
    and "toLowerCase svc (trim rawText) \<noteq> otmena"
    and "toLowerCase svc (trim rawText) \<noteq> ascii ''cancel''"
  shows "text_update svc sender rawText b =
           replyMainMenu svc sender
             (if toLowerCase svc (trim rawText) = ascii ''/cancel''
              then Msg ''action_cancelled'' [] else Msg ''choose_from_menu'' []) b
     \<and> userState (snd (text_update svc sender rawText b)) = userState b
     \<and> onboardingState (snd (text_update svc sender rawText b)) = onboardingState b
     \<and> store (snd (text_update svc sender rawText b)) = snd (getMainMenu svc sender (store b))
     \<and> (snd (getMainMenu svc sender (store b)) = store b \<longrightarrow>
           snd (text_update svc sender rawText b) = b)"
proof -
  have r: "text_update svc sender rawText b =
           replyMainMenu svc sender
             (if toLowerCase svc (trim rawText) = ascii ''/cancel''
              then Msg ''action_cancelled'' [] else Msg ''choose_from_menu'' []) b"
  proof (cases "toLowerCase svc (trim rawText) = ascii ''/cancel''")
    case True
    then have "isCancel svc (trim rawText)"
      by (simp add: isCancel_def)
    then show ?thesis
      using True assms(1,2) on_text_cancel[OF assms(3), of svc sender b]
      by (simp add: text_update_not_label[OF assms(4)] clear_no_session)
  next
    case False
    then have "\<not> isCancel svc (trim rawText)"
      using assms(5,6) by (simp add: isCancel_def)
    then show ?thesis
      using False on_text_no_session[OF assms(3) _ assms(1,2), of svc]
      by (simp add: text_update_not_label[OF assms(4)])
  qed
  show ?thesis
    unfolding r by (simp add: replyMainMenu_read_only)
qed

lemma edit_poll_try_throws:
  "fst (text_edit_poll_try svc sender t b) = Inl (ReferenceError (ascii ''joinState is not defined''))"
  "snd (text_edit_poll_try svc sender t b) = snd (ensureUserFromTelegram svc sender (store b))"
  by (simp_all add: text_edit_poll_try_def joinState_def split: prod.splits)

lemma text_edit_poll_result:
  "text_edit_poll svc sender t b =
     ([Reply (Msg ''poll_update_error'' []) NoMarkup],
      b\<lparr>store := snd (ensureUserFromTelegram svc sender (store b))\<rparr>)"
  using edit_poll_try_throws[of svc sender t b]
  by (cases "text_edit_poll_try svc sender t b") (simp add: text_edit_poll_def)

lemma isCancel_updatePoll [simp]:
  "isCancel (svc\<lparr>updatePoll := f\<rparr>) t = isCancel svc t"
  by (simp add: isCancel_def)

lemma on_text_edit_poll:
  assumes "userState b (tg_id sender) = Some state"
    and "st_flow state = flow_edit_poll"
    and "st_step state = Some step_enter_question"
    and "\<not> startsWith rawText (ascii ''/'')"
    and "\<not> isCancel svc (trim rawText)"
  shows "on_text svc sender rawText b =
           ([Reply (Msg ''poll_update_error'' []) NoMarkup],
            b\<lparr>store := snd (ensureUserFromTelegram svc sender (store b))\<rparr>)"
  using assms by (simp add: on_text_def text_flow_def text_edit_poll_result)

text \<open>
  C9. In the edit-poll step every text that is neither a command nor a cancel word makes the
  \<open>try\<close> block throw the ReferenceError of \<open>joinState\<close>. The handler replies with its
  error message, the session stays, the store is the one the account lookup left, and
  \<open>updatePoll\<close> plays no part in the result.
\<close>

theorem edit_poll_step_always_fails:
  assumes "userState b (tg_id sender) = Some state"
    and "st_flow state = flow_edit_poll"
    and "st_step state = Some step_enter_question"
    and "\<not> startsWith rawText (ascii ''/'')"
    and "\<not> isCancel svc (trim rawText)"
  shows "fst (text_edit_poll_try svc sender (trim rawText) b)
           = Inl (ReferenceError (ascii ''joinState is not defined''))
     \<and> on_text svc sender rawText b =
           ([Reply (Msg ''poll_update_error'' []) NoMarkup],
            b\<lparr>store := snd (ensureUserFromTelegram svc sender (store b))\<rparr>)
     \<and> userState (snd (on_text svc sender rawText b)) (tg_id sender) = Some state
     \<and> (\<forall>f. on_text (svc\<lparr>updatePoll := f\<rparr>) sender rawText b = on_text svc sender rawText b)"
proof -
  have r: "on_text svc sender rawText b =
           ([Reply (Msg ''poll_update_error'' []) NoMarkup],
            b\<lparr>store := snd (ensureUserFromTelegram svc sender (store b))\<rparr>)"
    by (rule on_text_edit_poll[OF assms])
  have f: "on_text (svc\<lparr>updatePoll := f\<rparr>) sender rawText b = on_text svc sender rawText b" for f
    using on_text_edit_poll[OF assms(1-4), of "svc\<lparr>updatePoll := f\<rparr>"] assms(5) r by simp
  show ?thesis
    using r f edit_poll_try_throws(1)[of svc sender "trim rawText" b] assms(1) by simp
qed


lemma example_services_fields:
  "toLowerCase example_services = example_toLowerCase"
  "getMainMenu example_services = (\<lambda>sender w. (MainMenu, w))"
  by (simp_all add: example_services_def)

lemmas string_defs =
  ascii_def startsWith_def trim_def isWhiteSpace_def example_services_fields
  example_toLowerCase_def lowerUnit_def isCancel_def otmena_def

lemmas label_defs =
  hears_labels_def label_my_conferences_def label_join_def label_profile_def
  label_find_participants_def label_ask_question_def label_polls_def

text \<open>\<open>Cancel\<close> between spaces during an edit-poll session, and the Russian word in
  capitals during onboarding.\<close>

theorem cancel_clears_sessions_witness:
  "on_text example_services example_sender (ascii '' Cancel '') example_editing =
     ([Reply (Msg ''action_cancelled'' []) MainMenu], clearUserState 7 example_editing)
   \<and> userState (clearUserState 7 example_editing) 7 = None
   \<and> on_text example_services example_sender [1054, 1058, 1052, 1045, 1053, 1040] example_onboarding =
     ([Reply (Msg ''action_cancelled'' []) MainMenu], clearUserState 7 example_onboarding)
   \<and> on_text example_services example_sender (ascii ''hello'') (clearUserState 7 example_onboarding) =
     ([Reply (Msg ''choose_from_menu'' []) MainMenu], clearUserState 7 example_onboarding)"
proof -
  have a: "\<not> startsWith (ascii '' Cancel '') (ascii ''/'')"
    "toLowerCase example_services (trim (ascii '' Cancel '')) = otmena
       \<or> toLowerCase example_services (trim (ascii '' Cancel '')) = ascii ''cancel''"
    by (simp_all add: string_defs)
  have r: "\<not> startsWith [1054, 1058, 1052, 1045, 1053, 1040] (ascii ''/'')"
    "toLowerCase example_services (trim [1054, 1058, 1052, 1045, 1053, 1040]) = otmena
       \<or> toLowerCase example_services (trim [1054, 1058, 1052, 1045, 1053, 1040])
           = ascii ''cancel''"
    by (simp_all add: string_defs)
  have h: "\<not> startsWith (ascii ''hello'') (ascii ''/'')"
    "\<not> isCancel example_services (trim (ascii ''hello''))"
    by (simp_all add: string_defs)
  have t: "tg_id example_sender = 7"
    by (simp add: example_sender_def)
  have m: "replyMainMenu example_services example_sender msg st = ([Reply msg MainMenu], st)"
    for msg st
    by (simp add: replyMainMenu_def example_services_fields)
  have e: "on_text example_services example_sender (ascii '' Cancel '') example_editing =
             ([Reply (Msg ''action_cancelled'' []) MainMenu], clearUserState 7 example_editing)"
    "userState (clearUserState 7 example_editing) 7 = None"
    using cancel_clears_sessions[OF a, of example_sender example_editing]
    by (simp_all add: t m)
  have o: "on_text example_services example_sender [1054, 1058, 1052, 1045, 1053, 1040]
             example_onboarding =
             ([Reply (Msg ''action_cancelled'' []) MainMenu], clearUserState 7 example_onboarding)"
    using cancel_clears_sessions[OF r, of example_sender example_onboarding]
    by (simp add: t m)
  have "on_text example_services example_sender (ascii ''hello'')
          (snd (on_text example_services example_sender [1054, 1058, 1052, 1045, 1053, 1040]
                  example_onboarding)) =
        replyMainMenu example_services example_sender (Msg ''choose_from_menu'' [])
          (snd (on_text example_services example_sender [1054, 1058, 1052, 1045, 1053, 1040]
                  example_onboarding))"
    using cancel_clears_sessions[OF r, of example_sender example_onboarding] h by blast
  then have "on_text example_services example_sender (ascii ''hello'')
          (clearUserState 7 example_onboarding) =
        ([Reply (Msg ''choose_from_menu'' []) MainMenu], clearUserState 7 example_onboarding)"
    by (simp add: o m)
  with e o show ?thesis
    by simp
qed

text \<open>A question typed with no flow active.\<close>

theorem text_without_session_witness:
  "text_update example_services example_sender (ascii ''What is the roadmap?'') example_bot =
     ([Reply (Msg ''choose_from_menu'' []) MainMenu], example_bot)"
proof -
  have a: "userState example_bot (tg_id example_sender) = None"
    "onboardingState example_bot (tg_id example_sender) = None"
    "\<not> startsWith (ascii ''What is the roadmap?'') (ascii ''/'')"
    "ascii ''What is the roadmap?'' \<notin> set hears_labels"
    "toLowerCase example_services (trim (ascii ''What is the roadmap?'')) \<noteq> otmena"
    "toLowerCase example_services (trim (ascii ''What is the roadmap?'')) \<noteq> ascii ''cancel''"
    by (simp_all add: example_bot_def string_defs label_defs)
  have c: "toLowerCase example_services (trim (ascii ''What is the roadmap?'')) \<noteq> ascii ''/cancel''"
    by (simp add: string_defs)
  show ?thesis
    using text_without_session[OF a] c
    by (simp add: replyMainMenu_def example_services_fields)
qed

text \<open>
  C8 as stated fails for the labels of the reply keyboard. The label of the profile button
  is a text that is not a command and not a cancel word, and account 7 has no session
  when it sends it; the text goes to the \<open>bot.hears\<close> handler of the button, which opens the
  onboarding flow instead of sending the advice: afterwards the account has a session.
\<close>

theorem profile_label_starts_onboarding:
  "userState example_bot 7 = None \<and> onboardingState example_bot 7 = None
   \<and> \<not> startsWith label_profile (ascii ''/'')
   \<and> \<not> isCancel example_services (trim label_profile)
   \<and> text_update example_services example_sender label_profile example_bot =
       ([Reply (Msg ''onboarding_step_1'' []) (InlineKeyboard [ascii ''menu:main''])],
        example_bot\<lparr>onboardingState := [7 \<mapsto> \<lparr>ob_step = 1, ob_data = emptyData\<rparr>]\<rparr>)
   \<and> onboardingState
         (snd (text_update example_services example_sender label_profile example_bot)) 7
       = Some \<lparr>ob_step = 1, ob_data = emptyData\<rparr>"
proof -
  have s: "userState example_bot 7 = None" "onboardingState example_bot 7 = None"
    by (simp_all add: example_bot_def)
  have t: "\<not> startsWith label_profile (ascii ''/'')"
    "\<not> isCancel example_services (trim label_profile)"
    by (simp_all add: label_profile_def string_defs)
  have u: "text_update example_services example_sender label_profile example_bot =
       ([Reply (Msg ''onboarding_step_1'' []) (InlineKeyboard [ascii ''menu:main''])],
        example_bot\<lparr>onboardingState := [7 \<mapsto> \<lparr>ob_step = 1, ob_data = emptyData\<rparr>]\<rparr>)"
    by (simp add: text_update_def label_defs hears_profile_def setOnboardingState_def
          clearUserState_def example_bot_def example_sender_def)
  show ?thesis
    using s t unfolding u by simp
qed

text \<open>\<open>/cancel\<close> after a space is not a command for the handler, and it is answered with
  the confirmation of the cancel.\<close>

lemma slash_cancel_after_space:
  "text_update example_services example_sender (ascii '' /cancel'') example_bot =
     ([Reply (Msg ''action_cancelled'' []) MainMenu], example_bot)"
  by (simp add: text_update_def label_defs on_text_def replyMainMenu_def string_defs
        clearUserState_def example_bot_def example_sender_def)

text \<open>A new question typed for the example poll: the error reply, nothing changed.\<close>

theorem edit_poll_step_always_fails_witness:
  "on_text example_services example_sender (ascii ''Lunch or brunch?'') example_editing =
     ([Reply (Msg ''poll_update_error'' []) NoMarkup], example_editing)
   \<and> fst (text_edit_poll_try example_services example_sender (ascii ''Lunch or brunch?'')
            example_editing)
       = Inl (ReferenceError (ascii ''joinState is not defined''))"
proof -
  have a: "userState example_editing (tg_id example_sender)
             = Some ((session flow_edit_poll (Some step_enter_question))\<lparr>st_pollId := Some (ascii ''q1'')\<rparr>)"
    "st_flow ((session flow_edit_poll (Some step_enter_question))\<lparr>st_pollId := Some (ascii ''q1'')\<rparr>)
       = flow_edit_poll"
    "st_step ((session flow_edit_poll (Some step_enter_question))\<lparr>st_pollId := Some (ascii ''q1'')\<rparr>)
       = Some step_enter_question"
    "\<not> startsWith (ascii ''Lunch or brunch?'') (ascii ''/'')"
    "\<not> isCancel example_services (trim (ascii ''Lunch or brunch?''))"
    by (simp_all add: example_editing_def example_sender_def session_def string_defs)
  have tr: "trim (ascii ''Lunch or brunch?'') = ascii ''Lunch or brunch?''"
    by (simp add: string_defs)
  have e: "example_editing\<lparr>store := snd (ensureUserFromTelegram example_services example_sender
             (store example_editing))\<rparr> = example_editing"
    by (simp add: example_services_def)
  show ?thesis
    using edit_poll_step_always_fails[OF a] by (simp add: tr e)
qed

lemma hears_select_result:
  assumes "ensureUserFromTelegram svc sender (store b) = (usr, w1)"
    and "listConferencesForUser svc usr w1 \<noteq> []"
  shows "snd (hears_select svc f callback sender b) =
           setUserState (tg_id sender) (session f (Some step_select_conference)) (b\<lparr>store := w1\<rparr>)"
  using assms by (simp add: hears_select_def Let_def)

lemma action_menu_select_clears:
  "onboardingState (snd (action_menu_select svc f callback m back sender b)) (tg_id sender) = None"
  by (cases "ensureUserFromTelegram svc sender (store (clearUserState (tg_id sender) b))")
     (simp add: action_menu_select_def Let_def setUserState_def)

text \<open>The inline-button twin of the handler clears the onboarding session.\<close>

lemma action_menu_ask_question_clears:
  "onboardingState (snd (action_menu_ask_question svc sender b)) (tg_id sender) = None"
  by (simp add: action_menu_ask_question_def action_menu_select_clears)

text \<open>The handlers that call \<open>clearUserState\<close> leave the account with the session they
  store and nothing else.\<close>

lemma action_start_one_session:
  "userState (snd (action_start s prompt back sender b)) (tg_id sender) = Some s
   \<and> onboardingState (snd (action_start s prompt back sender b)) (tg_id sender) = None"
  by (simp add: action_start_def setUserState_def)

lemma hears_join_one_session:
  "userState (snd (hears_join sender b)) (tg_id sender) = Some (session flow_join_conference None)
   \<and> onboardingState (snd (hears_join sender b)) (tg_id sender) = None"
  by (simp add: hears_join_def setUserState_def)

lemma hears_profile_one_session:
  "userState (snd (hears_profile sender b)) (tg_id sender) = None
   \<and> onboardingState (snd (hears_profile sender b)) (tg_id sender)
       = Some \<lparr>ob_step = 1, ob_data = emptyData\<rparr>"
  by (simp add: hears_profile_def setOnboardingState_def)

text \<open>The selection handlers of the reply keyboard, and \<open>menu:admin_participants\<close>, never
  touch the onboarding map, whatever the state.\<close>

lemma hears_select_keeps_onboarding:
  "onboardingState (snd (hears_select svc f callback sender b)) = onboardingState b"
  by (cases "ensureUserFromTelegram svc sender (store b)")
     (simp add: hears_select_def Let_def setUserState_def)

lemma action_menu_admin_participants_keeps_onboarding:
  "onboardingState (snd (action_menu_admin_participants svc sender b)) = onboardingState b"
  by (cases "ensureUserFromTelegram svc sender (store b)")
     (simp add: action_menu_admin_participants_def Let_def setUserState_def)

text \<open>
  C3 does not hold for the reply-keyboard handlers that show the conference selection
  (and for \<open>menu:admin_participants\<close>): they store the new session without calling
  \<open>clearUserState\<close>. Account 7 is at step 2 of onboarding and presses the ask-question
  button: afterwards it has the ask-question session and still its onboarding session with
  the name it typed.
\<close>

theorem hears_ask_question_keeps_onboarding:
  "snd (hears_ask_question example_services example_sender example_onboarding) =
     example_onboarding
       \<lparr>userState := [7 \<mapsto> session flow_ask_question (Some step_select_conference)]\<rparr>
   \<and> onboardingState (snd (hears_ask_question example_services example_sender example_onboarding)) 7
       = Some \<lparr>ob_step = 2,
               ob_data = emptyData\<lparr>pd_firstName := Some (ascii ''Ann''),
                                   pd_lastName := Some (ascii ''Lee'')\<rparr>\<rparr>
   \<and> userState (snd (hears_ask_question example_services example_sender example_onboarding)) 7
       = Some (session flow_ask_question (Some step_select_conference))"
proof -
  have e: "ensureUserFromTelegram example_services example_sender (store example_onboarding)
             = (example_user (numberToString 7), example_world)"
    by (simp add: example_services_def example_onboarding_def example_sender_def)
  have l: "listConferencesForUser example_services (example_user (numberToString 7)) example_world \<noteq> []"
    by (simp add: example_services_def example_world_def)
  have "snd (hears_ask_question example_services example_sender example_onboarding) =
          setUserState 7 (session flow_ask_question (Some step_select_conference))
            (example_onboarding\<lparr>store := example_world\<rparr>)"
    unfolding hears_ask_question_def
    using hears_select_result[OF e l] by (simp add: example_sender_def)
  then show ?thesis
    by (simp add: setUserState_def example_onboarding_def)
qed

text \<open>The state of the example is reached through the bot itself: the reply-keyboard
  button of the profile, then the name.\<close>

lemma example_onboarding_reached:
  "snd (on_text example_services example_sender (ascii ''Ann Lee'')
          (snd (hears_profile example_sender example_bot))) = example_onboarding"
  by (simp add: on_text_def hears_profile_def example_bot_def example_sender_def
        clearUserState_def setOnboardingState_def string_defs text_onboarding_def
        example_services_def example_profileSchema_def validate_def emptyData_def
        example_onboarding_def Let_def)

end
